theory Spec2Isabelle
  imports Complex_Main "HOL-Library.Sublist"
begin

section \<open>Values, errors and promises\<close>

text \<open>
  A GraphQL argument that the schema does not force to be present is, in the resolver,
  \<open>undefined\<close> (not supplied), \<open>null\<close> or a value.
\<close>

datatype 'a arg = Undefined | Null | Val 'a

text \<open>JavaScript truthiness of a string-valued argument: \<open>!x\<close> is \<open>\<not> truthy x\<close>.\<close>

fun truthy :: "string arg \<Rightarrow> bool" where
  "truthy (Val s) = (s \<noteq> [])"
| "truthy Undefined = False"
| "truthy Null = False"

text \<open>
  The string that express-validator hands to its standard validators: \<open>undefined\<close> and
  \<open>null\<close> become the empty string.
\<close>

fun toString :: "string arg \<Rightarrow> string" where
  "toString (Val s) = s"
| "toString Undefined = []"
| "toString Null = []"

text \<open>
  \<open>String.prototype.toLowerCase\<close> on the ASCII letters; a \<open>char\<close> of this model is
  one byte, and bytes outside \<open>A\<close>..\<open>Z\<close> are left as they are.
\<close>

definition lower_char :: "char \<Rightarrow> char" where
  "lower_char c =
     (if (65::nat) \<le> of_char c \<and> (of_char c :: nat) \<le> 90
      then char_of ((of_char c :: nat) + 32) else c)"

definition toLowerCase :: "string \<Rightarrow> string" where
  "toLowerCase s = map lower_char s"

text \<open>
  What a collaborator (the store, the hashing library, the image host, the JavaScript
  engine) throws: an object. The resolvers read its \<open>message\<close>, its \<open>code\<close> and its
  \<open>keyPattern\<close>; each of them is \<open>None\<close> when the object has no such property.
\<close>

record native_error =
  err_name :: string
  err_message :: "string option"
  err_code :: "int option"
  err_keyPattern :: "(string \<times> int) list option"

text \<open>
  What the promise of the image host rejects with: any JavaScript value, that is
  \<open>null\<close> or \<open>undefined\<close>, or a value whose properties can be read.
\<close>

datatype rejection = Nullish | Object native_error

text \<open>One entry of \<open>validationResult(req).array()\<close>.\<close>

datatype validation_error = ValidationError (msg: string) (param: string)

text \<open>
  The \<open>details\<close> extension of a \<open>GraphQLError\<close>: not set, the array of validation
  errors, or the \<open>message\<close> read from a caught error (\<open>None\<close> when that is
  \<open>undefined\<close>).
\<close>

datatype details = NoDetails | ErrorArray "validation_error list" | Message "string option"

text \<open>
  What a resolver throws: a \<open>GraphQLError\<close> with its message, its \<open>extensions.code\<close> and
  its \<open>extensions.details\<close>, or a native error that it did not catch.
\<close>

datatype thrown = GraphQLError string string details | Native native_error

text \<open>
  An awaited call of a collaborator takes the outside world \<open>'w\<close> to a new one and
  resolves or rejects; an \<open>async\<close> resolver does the same with a \<open>thrown\<close> on rejection.
\<close>

type_synonym ('w, 'a) promise = "'w \<Rightarrow> (native_error + 'a) \<times> 'w"
type_synonym ('w, 'a) async = "'w \<Rightarrow> (thrown + 'a) \<times> 'w"

definition return :: "'a \<Rightarrow> ('w, 'a) async" where
  "return x w = (Inr x, w)"

definition throw :: "thrown \<Rightarrow> ('w, 'a) async" where
  "throw e w = (Inl e, w)"

definition await :: "('w, 'a) promise \<Rightarrow> ('a \<Rightarrow> ('w, 'b) async) \<Rightarrow> ('w, 'b) async" where
  "await p k w = (case p w of (Inl e, w') \<Rightarrow> (Inl (Native e), w') | (Inr x, w') \<Rightarrow> k x w')"

text \<open>\<open>await\<close> of another \<open>async\<close> function of the resolvers.\<close>

definition await_async :: "('w, 'a) async \<Rightarrow> ('a \<Rightarrow> ('w, 'b) async) \<Rightarrow> ('w, 'b) async" where
  "await_async m k w = (case m w of (Inl e, w') \<Rightarrow> (Inl e, w') | (Inr x, w') \<Rightarrow> k x w')"

text \<open>\<open>try { return await p } catch (error) { h(error) }\<close>, where \<open>h\<close> always throws.\<close>

definition try_catch :: "('w, 'a) async \<Rightarrow> (thrown \<Rightarrow> thrown) \<Rightarrow> ('w, 'a) async" where
  "try_catch m h w = (case m w of (Inl e, w') \<Rightarrow> (Inl (h e), w') | (Inr x, w') \<Rightarrow> (Inr x, w'))"

section \<open>Documents, filters and arguments\<close>

record user =
  u_id :: string
  u_username :: string
  u_email :: string
  u_password :: string

text \<open>The object passed to \<open>User.create\<close>.\<close>

record user_doc =
  d_username :: string
  d_email :: string
  d_password :: string

text \<open>The filter passed to \<open>User.findOne\<close>: \<open>{ username }\<close> or \<open>{ email }\<close>.\<close>

datatype user_filter = Username string | Email string

text \<open>The fields of \<open>models/Employee.js\<close>, with the identifier and the timestamps.\<close>

record employee =
  e_id :: string
  e_first_name :: string
  e_last_name :: string
  e_email :: string
  e_gender :: "string arg"
  e_designation :: string
  e_salary :: real
  e_date_of_joining :: string
  e_department :: string
  e_employee_photo :: "string arg"
  created_at :: nat
  updated_at :: nat

text \<open>
  The arguments of \<open>addEmployee\<close> and \<open>updateEmployee\<close>, which are also (spread, with
  some fields replaced) the document passed to \<open>Employee.create\<close> and the update passed
  to \<open>Employee.findByIdAndUpdate\<close>. \<open>salary\<close> is a JavaScript number, read as a real.
\<close>

record args =
  eid :: "string arg"
  first_name :: "string arg"
  last_name :: "string arg"
  email :: "string arg"
  gender :: "string arg"
  designation :: "string arg"
  salary :: "real arg"
  date_of_joining :: "string arg"
  department :: "string arg"
  employee_photo :: "string arg"

text \<open>\<open>new RegExp(source, flags)\<close>.\<close>

datatype regexp = RegExp (source: string) (flags: string)

text \<open>
  The filters passed to \<open>Employee.find\<close> and \<open>Employee.findOne\<close>: a field that is
  \<open>None\<close> is not a key of the filter object.
\<close>

record employee_filter =
  f_id_ne :: "string option"
  f_email :: "string option"
  f_designation :: "regexp option"
  f_department :: "regexp option"

definition no_filter :: employee_filter where
  "no_filter = \<lparr>f_id_ne = None, f_email = None, f_designation = None, f_department = None\<rparr>"

text \<open>The claims signed into the token by \<open>login\<close>.\<close>

record jwt_payload =
  userId :: string
  p_username :: string
  p_email :: string

section \<open>The collaborators\<close>

text \<open>
  Everything the resolvers call and do not define: the validators of validator.js that
  have no short definition, the identifier check of the store's driver, the syntax check
  of the JavaScript engine's \<open>RegExp\<close>, the configured signing secret, and the awaited
  calls of bcrypt, jsonwebtoken, Cloudinary and the two Mongoose models.
\<close>

record 'w env =
  isEmail :: "string \<Rightarrow> bool"
  isISO8601 :: "string \<Rightarrow> bool"
  ObjectId_isValid :: "string \<Rightarrow> bool"
  RegExp_syntax :: "string \<Rightarrow> native_error option"
  JWT_SECRET :: "string arg"
  bcrypt_hash :: "string \<Rightarrow> nat \<Rightarrow> ('w, string) promise"
  bcrypt_compare :: "string \<Rightarrow> string \<Rightarrow> ('w, bool) promise"
  jwt_sign :: "jwt_payload \<Rightarrow> string \<Rightarrow> string \<Rightarrow> ('w, string) promise"
  cloudinary_upload :: "string \<Rightarrow> string \<Rightarrow> string \<Rightarrow> 'w \<Rightarrow> (rejection + string) \<times> 'w"
  User_findOne :: "user_filter \<Rightarrow> ('w, user option) promise"
  User_create :: "user_doc \<Rightarrow> ('w, user) promise"
  Employee_find :: "employee_filter \<Rightarrow> string \<times> int \<Rightarrow> ('w, employee list) promise"
  Employee_findById :: "string \<Rightarrow> ('w, employee option) promise"
  Employee_findOne :: "employee_filter \<Rightarrow> ('w, employee option) promise"
  Employee_create :: "args \<Rightarrow> ('w, employee) promise"
  Employee_findByIdAndUpdate :: "string \<Rightarrow> args \<Rightarrow> ('w, employee option) promise"
  Employee_findByIdAndDelete :: "string \<Rightarrow> ('w, employee option) promise"

section \<open>Regular expressions\<close>

text \<open>
  The syntax characters of a JavaScript pattern. A pattern without any of them is a
  sequence of literal characters and always compiles; whether another pattern compiles is
  the engine's verdict, \<open>RegExp_syntax\<close>.
\<close>

definition syntax_chars :: "char list" where
  "syntax_chars = [CHR ''^'', CHR ''$'', CHR 0x5C, CHR ''.'', CHR ''*'', CHR ''+'', CHR ''?'',
     CHR ''('', CHR '')'', CHR ''['', CHR '']'', CHR ''{'', CHR ''}'', CHR ''|'']"

definition plain :: "string \<Rightarrow> bool" where
  "plain p = (\<forall>c \<in> set p. c \<notin> set syntax_chars)"

text \<open>A pattern that is \<open>^\<close> followed by literal characters compiles as well.\<close>

fun anchored :: "string \<Rightarrow> bool" where
  "anchored [] = False"
| "anchored (c # p) = (c = CHR ''^'' \<and> plain p)"


section \<open>express-validator\<close>

definition notEmpty :: "string arg \<Rightarrow> bool" where
  "notEmpty v = (toString v \<noteq> [])"

definition isLength :: "nat \<Rightarrow> string arg \<Rightarrow> bool" where
  "isLength m v = (m \<le> length (toString v))"

text \<open>
  \<open>isFloat({ min })\<close> on a number: the number is printed and parsed back, so the test is
  the comparison; \<open>undefined\<close> and \<open>null\<close> print as the empty string, which is no float.
\<close>

fun isFloat :: "real \<Rightarrow> real arg \<Rightarrow> bool" where
  "isFloat m (Val x) = (m \<le> x)"
| "isFloat m Undefined = False"
| "isFloat m Null = False"

fun isString :: "string arg \<Rightarrow> bool" where
  "isString (Val s) = True"
| "isString Undefined = False"
| "isString Null = False"

text \<open>
  One field of a schema: with \<open>optional: true\<close> an \<open>undefined\<close> value is skipped;
  otherwise every validator of the field runs, and each one that fails adds its
  \<open>errorMessage\<close>.
\<close>

definition check :: "string \<Rightarrow> bool \<Rightarrow> 'a arg \<Rightarrow> (bool \<times> string) list \<Rightarrow> validation_error list" where
  "check field optional v rules =
     (if optional \<and> v = Undefined then []
      else map (\<lambda>r. ValidationError (snd r) field) (filter (\<lambda>r. \<not> fst r) rules))"

text \<open>
  \<open>runValidation\<close>, given the errors of the schema's fields: \<open>None\<close> when it returns,
  \<open>Some\<close> of the error it throws. The errors are listed here in the order of the schema;
  the library lists them in the order in which the chains of the fields complete, so
  with several invalid fields the message of the error may be that of another field. Its
  code and the fact that it is thrown do not depend on the order.
\<close>

definition runValidation :: "validation_error list \<Rightarrow> thrown option" where
  "runValidation errors =
     (case errors of
        [] \<Rightarrow> None
      | firstError # _ \<Rightarrow> Some (GraphQLError (msg firstError) ''BAD_USER_INPUT'' (ErrorArray errors)))"

definition login_schema :: "string \<Rightarrow> validation_error list" where
  "login_schema password =
     check ''password'' False (Val password)
       [(notEmpty (Val password), ''Password is required.''),
        (isLength 6 (Val password), ''Password must be at least 6 characters.'')]"

definition signup_schema :: "'w env \<Rightarrow> string \<Rightarrow> string \<Rightarrow> string \<Rightarrow> validation_error list" where
  "signup_schema env username email' password =
     check ''username'' False (Val username)
       [(notEmpty (Val username), ''Username is required.''),
        (isLength 3 (Val username), ''Username must be at least 3 characters.'')]
     @ check ''email'' False (Val email')
       [(notEmpty (Val email'), ''Email is required.''),
        (isEmail env email', ''Email format is invalid.'')]
     @ check ''password'' False (Val password)
       [(notEmpty (Val password), ''Password is required.''),
        (isLength 6 (Val password), ''Password must be at least 6 characters.'')]"

definition addEmployee_schema :: "'w env \<Rightarrow> args \<Rightarrow> validation_error list" where
  "addEmployee_schema env a =
     check ''first_name'' False (first_name a)
       [(notEmpty (first_name a), ''First name is required.'')]
     @ check ''last_name'' False (last_name a)
       [(notEmpty (last_name a), ''Last name is required.'')]
     @ check ''email'' False (email a)
       [(notEmpty (email a), ''Email is required.''),
        (isEmail env (toString (email a)), ''Email format is invalid.'')]
     @ check ''designation'' False (designation a)
       [(notEmpty (designation a), ''Designation is required.'')]
     @ check ''salary'' False (salary a)
       [(isFloat 1000 (salary a), ''Salary must be at least 1000.'')]
     @ check ''date_of_joining'' False (date_of_joining a)
       [(notEmpty (date_of_joining a), ''Date of joining is required.''),
        (isISO8601 env (toString (date_of_joining a)),
         ''date_of_joining must be a valid date (YYYY-MM-DD).'')]
     @ check ''department'' False (department a)
       [(notEmpty (department a), ''Department is required.'')]
     @ check ''employee_photo'' True (employee_photo a)
       [(isString (employee_photo a),
         ''employee_photo must be a string (URL or base64 image data).'')]"

definition updateEmployee_schema :: "'w env \<Rightarrow> args \<Rightarrow> validation_error list" where
  "updateEmployee_schema env a =
     check ''eid'' False (eid a)
       [(notEmpty (eid a), ''Employee ID is required.'')]
     @ check ''email'' True (email a)
       [(isEmail env (toString (email a)), ''Email format is invalid.'')]
     @ check ''salary'' True (salary a)
       [(isFloat 1000 (salary a), ''Salary must be at least 1000.'')]"

section \<open>The resolvers\<close>

text \<open>Reading \<open>message\<close> of \<open>null\<close> or \<open>undefined\<close>.\<close>

definition TypeError_message :: native_error where
  "TypeError_message = \<lparr>err_name = ''TypeError'',
     err_message = Some ''Cannot read properties of undefined (reading message)'',
     err_code = None, err_keyPattern = None\<rparr>"

text \<open>
  \<open>uploadEmployeePhoto\<close>: \<open>null\<close> for a falsy payload, the \<open>secure_url\<close> of the upload
  otherwise. The \<open>catch\<close> block builds a \<open>GraphQLError\<close> whose details are
  \<open>error.message\<close>; when the upload rejected with \<open>null\<close> or \<open>undefined\<close>, reading
  \<open>error.message\<close> throws inside the \<open>catch\<close> block.
\<close>

definition uploadEmployeePhoto :: "'w env \<Rightarrow> string arg \<Rightarrow> ('w, string arg) async" where
  "uploadEmployeePhoto env employeePhoto w =
     (if \<not> truthy employeePhoto then return Null w
      else (case cloudinary_upload env (toString employeePhoto)
                   ''employee-management/employees'' ''image'' w of
              (Inr secure_url, w') \<Rightarrow> (Inr (Val secure_url), w')
            | (Inl (Object error), w') \<Rightarrow>
                (Inl (GraphQLError ''Employee photo upload failed.'' ''INTERNAL_SERVER_ERROR''
                        (Message (err_message error))), w')
            | (Inl Nullish, w') \<Rightarrow> (Inl (Native TypeError_message), w')))"

text \<open>\<open>error.keyPattern && error.keyPattern.email\<close>.\<close>

definition keyPattern_email :: "native_error \<Rightarrow> bool" where
  "keyPattern_email error =
     (case err_keyPattern error of
        None \<Rightarrow> False
      | Some kp \<Rightarrow> (case map_of kp ''email'' of None \<Rightarrow> False | Some v \<Rightarrow> v \<noteq> 0))"

text \<open>
  \<open>handleDuplicateEmailError\<close> always throws; the value is what it throws. A
  \<open>GraphQLError\<close> has its code under \<open>extensions\<close> and no \<open>code\<close> of its own, so it is
  thrown again as it is.
\<close>

fun handleDuplicateEmailError :: "thrown \<Rightarrow> thrown" where
  "handleDuplicateEmailError (Native error) =
     (if err_code error = Some 11000 \<and> keyPattern_email error
      then GraphQLError ''Email already exists.'' ''BAD_USER_INPUT'' NoDetails
      else Native error)"
| "handleDuplicateEmailError (GraphQLError m c d) = GraphQLError m c d"

text \<open>Reading \<open>toLowerCase\<close> of \<open>undefined\<close> or \<open>null\<close>.\<close>

definition TypeError :: native_error where
  "TypeError = \<lparr>err_name = ''TypeError'',
     err_message = Some ''Cannot read properties of undefined (reading toLowerCase)'',
     err_code = None, err_keyPattern = None\<rparr>"

text \<open>\<open>const query = username ? { username } : { email: email.toLowerCase() }\<close>.\<close>

definition query :: "string arg \<Rightarrow> string arg \<Rightarrow> user_filter" where
  "query username email' =
     (if truthy username then Username (toString username)
      else Email (toLowerCase (toString email')))"

definition login :: "'w env \<Rightarrow> string arg \<Rightarrow> string arg \<Rightarrow> string \<Rightarrow> ('w, string) async" where
  "login env username email' password =
     (case runValidation (login_schema password) of
        Some err \<Rightarrow> throw err
      | None \<Rightarrow>
          if \<not> truthy username \<and> \<not> truthy email'
          then throw (GraphQLError ''Either username or email is required for login.''
                        ''BAD_USER_INPUT'' NoDetails)
          else
            await (User_findOne env (query username email'))
              (\<lambda>found. case found of
                 None \<Rightarrow> throw (GraphQLError ''Invalid credentials.'' ''UNAUTHENTICATED'' NoDetails)
               | Some user \<Rightarrow>
                   await (bcrypt_compare env password (u_password user))
                     (\<lambda>passwordMatched.
                        if \<not> passwordMatched
                        then throw (GraphQLError ''Invalid credentials.'' ''UNAUTHENTICATED''
                                      NoDetails)
                        else if \<not> truthy (JWT_SECRET env)
                        then throw (GraphQLError ''JWT_SECRET is not configured.''
                                      ''INTERNAL_SERVER_ERROR'' NoDetails)
                        else
                          await (jwt_sign env
                                   \<lparr>userId = u_id user, p_username = u_username user,
                                    p_email = u_email user\<rparr>
                                   (toString (JWT_SECRET env)) ''1d'')
                            return)))"

definition getEmployees :: "'w env \<Rightarrow> ('w, employee list) async" where
  "getEmployees env = await (Employee_find env no_filter (''created_at'', -1)) return"

definition getEmployeeById :: "'w env \<Rightarrow> string \<Rightarrow> ('w, employee) async" where
  "getEmployeeById env eid' =
     (if \<not> ObjectId_isValid env eid'
      then throw (GraphQLError ''Invalid employee ID.'' ''BAD_USER_INPUT'' NoDetails)
      else
        await (Employee_findById env eid')
          (\<lambda>found. case found of
             None \<Rightarrow> throw (GraphQLError ''Employee not found.'' ''NOT_FOUND'' NoDetails)
           | Some employee \<Rightarrow> return employee))"



definition signup :: "'w env \<Rightarrow> string \<Rightarrow> string \<Rightarrow> string \<Rightarrow> ('w, user) async" where
  "signup env username email' password =
     (case runValidation (signup_schema env username email' password) of
        Some err \<Rightarrow> throw err
      | None \<Rightarrow>
          await (User_findOne env (Email (toLowerCase email')))
            (\<lambda>existingUser. case existingUser of
               Some _ \<Rightarrow> throw (GraphQLError ''Email already exists.'' ''BAD_USER_INPUT'' NoDetails)
             | None \<Rightarrow>
                 await (bcrypt_hash env password 10)
                   (\<lambda>hashedPassword.
                      try_catch
                        (await (User_create env
                                  \<lparr>d_username = username, d_email = toLowerCase email',
                                   d_password = hashedPassword\<rparr>)
                           return)
                        handleDuplicateEmailError)))"

text \<open>
  \<open>let photoUrl = null; if (args.employee_photo) photoUrl = await uploadEmployeePhoto(...)\<close>.
\<close>

definition photoUrl :: "'w env \<Rightarrow> args \<Rightarrow> ('w, string arg) async" where
  "photoUrl env a =
     (if truthy (employee_photo a) then uploadEmployeePhoto env (employee_photo a)
      else return Null)"

definition addEmployee :: "'w env \<Rightarrow> args \<Rightarrow> ('w, employee) async" where
  "addEmployee env a =
     (case runValidation (addEmployee_schema env a) of
        Some err \<Rightarrow> throw err
      | None \<Rightarrow>
          (case email a of
             Val email' \<Rightarrow>
               await (Employee_findOne env (no_filter\<lparr>f_email := Some (toLowerCase email')\<rparr>))
                 (\<lambda>existingEmployee. case existingEmployee of
                    Some _ \<Rightarrow>
                      throw (GraphQLError ''Email already exists.'' ''BAD_USER_INPUT'' NoDetails)
                  | None \<Rightarrow>
                      await_async (photoUrl env a)
                        (\<lambda>photoUrl'.
                           try_catch
                             (await (Employee_create env
                                       (a\<lparr>email := Val (toLowerCase email'),
                                          employee_photo := photoUrl'\<rparr>))
                                return)
                             handleDuplicateEmailError))
           | Undefined \<Rightarrow> throw (Native TypeError)
           | Null \<Rightarrow> throw (Native TypeError)))"

text \<open>
  In \<open>updateEmployee\<close>, \<open>updates\<close> is \<open>args\<close> without \<open>eid\<close>. The block
  \<open>if (updates.email) { ... }\<close> looks for another record with the lower-cased email and
  then puts the lower-cased email into \<open>updates\<close>.
\<close>

definition updates :: "'w env \<Rightarrow> args \<Rightarrow> ('w, args) async" where
  "updates env a =
     (if truthy (email a)
      then
        await (Employee_findOne env
                 (no_filter\<lparr>f_id_ne := Some (toString (eid a)),
                            f_email := Some (toLowerCase (toString (email a)))\<rparr>))
          (\<lambda>existingEmployee. case existingEmployee of
             Some _ \<Rightarrow>
               throw (GraphQLError ''Email already exists.'' ''BAD_USER_INPUT'' NoDetails)
           | None \<Rightarrow>
               return (a\<lparr>eid := Undefined,
                         email := Val (toLowerCase (toString (email a)))\<rparr>))
      else return (a\<lparr>eid := Undefined\<rparr>))"

definition updateEmployee :: "'w env \<Rightarrow> args \<Rightarrow> ('w, employee) async" where
  "updateEmployee env a =
     (case runValidation (updateEmployee_schema env a) of
        Some err \<Rightarrow> throw err
      | None \<Rightarrow>
          if \<not> (case eid a of Val eid' \<Rightarrow> ObjectId_isValid env eid' | _ \<Rightarrow> False)
          then throw (GraphQLError ''Invalid employee ID.'' ''BAD_USER_INPUT'' NoDetails)
          else
            await_async (updates env a)
              (\<lambda>updates'.
                 try_catch
                   (await (Employee_findByIdAndUpdate env (toString (eid a)) updates')
                      (\<lambda>updatedEmployee. case updatedEmployee of
                         None \<Rightarrow>
                           throw (GraphQLError ''Employee not found.'' ''NOT_FOUND'' NoDetails)
                       | Some employee \<Rightarrow> return employee))
                   handleDuplicateEmailError))"

definition deleteEmployee :: "'w env \<Rightarrow> string \<Rightarrow> ('w, string) async" where
  "deleteEmployee env eid' =
     (if \<not> ObjectId_isValid env eid'
      then throw (GraphQLError ''Invalid employee ID.'' ''BAD_USER_INPUT'' NoDetails)
      else
        await (Employee_findByIdAndDelete env eid')
          (\<lambda>deletedEmployee. case deletedEmployee of
             None \<Rightarrow> throw (GraphQLError ''Employee not found.'' ''NOT_FOUND'' NoDetails)
           | Some _ \<Rightarrow> return ''Employee deleted successfully.''))"

section \<open>An in-memory store\<close>

text \<open>
  The two collections, a counter that supplies identifiers and timestamps, and the
  names of the collaborator calls made so far.
\<close>

record mem =
  users :: "user list"
  employees :: "employee list"
  clock :: nat
  calls :: "string list"

definition called :: "string \<Rightarrow> mem \<Rightarrow> mem" where
  "called name w = w\<lparr>calls := calls w @ [name]\<rparr>"

definition hex_digit :: "nat \<Rightarrow> char" where
  "hex_digit d = ''0123456789abcdef'' ! (d mod 16)"

text \<open>The identifier generated for the \<open>n\<close>-th write: 24 hexadecimal digits.\<close>

fun hex :: "nat \<Rightarrow> nat \<Rightarrow> string" where
  "hex 0 n = []"
| "hex (Suc k) n = hex k (n div 16) @ [hex_digit n]"

definition ObjectId :: "nat \<Rightarrow> string" where
  "ObjectId n = hex 24 n"

definition is_space :: "char \<Rightarrow> bool" where
  "is_space c = (c \<in> set [CHR '' '', CHR 0x09, CHR 0x0A, CHR 0x0B, CHR 0x0C, CHR 0x0D])"

text \<open>The \<open>trim: true\<close> setter of the schema.\<close>

definition trim :: "string \<Rightarrow> string" where
  "trim s = rev (dropWhile is_space (rev (dropWhile is_space s)))"

fun trim_arg :: "string arg \<Rightarrow> string arg" where
  "trim_arg (Val s) = Val (trim s)"
| "trim_arg Undefined = Undefined"
| "trim_arg Null = Null"

text \<open>The error of a write that violates the unique index on \<open>email\<close>.\<close>

definition duplicate_key :: native_error where
  "duplicate_key = \<lparr>err_name = ''MongoServerError'',
     err_message = Some ''E11000 duplicate key error index: email_1 dup key'',
     err_code = Some 11000, err_keyPattern = Some [(''email'', 1)]\<rparr>"

text \<open>The error of a document or an update that the schema's validators reject.\<close>

definition schema_error :: native_error where
  "schema_error = \<lparr>err_name = ''ValidationError'',
     err_message = Some ''Employee validation failed'',
     err_code = None, err_keyPattern = None\<rparr>"

subsection \<open>Matching a regular expression\<close>

text \<open>
  A pattern of literal characters with the flag \<open>i\<close> matches where the characters
  occur, compared without regard to the case of ASCII letters.
\<close>

fun match_here :: "string \<Rightarrow> string \<Rightarrow> bool" where
  "match_here [] s = True"
| "match_here (p # ps) [] = False"
| "match_here (p # ps) (c # cs) = (lower_char p = lower_char c \<and> match_here ps cs)"

fun match_anywhere :: "string \<Rightarrow> string \<Rightarrow> bool" where
  "match_anywhere p [] = match_here p []"
| "match_anywhere p (c # cs) = (match_here p (c # cs) \<or> match_anywhere p cs)"

text \<open>
  \<open>^\<close> before the literal characters ties the match to the start of the string.
  Every other pattern is left to \<open>engine\<close>.
\<close>

definition RegExp_test :: "(regexp \<Rightarrow> string \<Rightarrow> bool) \<Rightarrow> regexp \<Rightarrow> string \<Rightarrow> bool" where
  "RegExp_test engine r s =
     (if flags r = ''i'' \<and> plain (source r) then match_anywhere (source r) s
      else if flags r = ''i'' \<and> anchored (source r) then match_here (tl (source r)) s
      else engine r s)"

text \<open>A document matches a filter when it matches every key of the filter.\<close>

definition matches :: "(regexp \<Rightarrow> string \<Rightarrow> bool) \<Rightarrow> employee_filter \<Rightarrow> employee \<Rightarrow> bool" where
  "matches engine f e =
     ((case f_id_ne f of None \<Rightarrow> True | Some i \<Rightarrow> e_id e \<noteq> i) \<and>
      (case f_email f of None \<Rightarrow> True | Some m \<Rightarrow> e_email e = m) \<and>
      (case f_designation f of None \<Rightarrow> True | Some r \<Rightarrow> RegExp_test engine r (e_designation e)) \<and>
      (case f_department f of None \<Rightarrow> True | Some r \<Rightarrow> RegExp_test engine r (e_department e)))"

subsection \<open>The User model\<close>

text \<open>
  Modelled from the spec: \<open>models/User.js\<close> is not among the sources. An Account has an
  identifier generated by the store, a username, an email that is lower-cased on write
  and globally unique, and the password hash.
\<close>

definition mem_User_findOne :: "user_filter \<Rightarrow> (mem, user option) promise" where
  "mem_User_findOne f w =
     (Inr (case f of
             Username n \<Rightarrow> find (\<lambda>u. u_username u = n) (users w)
           | Email m \<Rightarrow> find (\<lambda>u. u_email u = m) (users w)),
      called ''User.findOne'' w)"

text \<open>
  Modelled from the spec: \<open>User.create\<close> of the missing \<open>models/User.js\<close>; it resolves
  with the stored document, all of its fields included.
\<close>

definition mem_User_create :: "user_doc \<Rightarrow> (mem, user) promise" where
  "mem_User_create doc w =
     (if \<exists>u \<in> set (users w). u_email u = toLowerCase (d_email doc)
      then (Inl duplicate_key, called ''User.create'' w)
      else
        (let u = \<lparr>u_id = ObjectId (clock w), u_username = d_username doc,
                  u_email = toLowerCase (d_email doc), u_password = d_password doc\<rparr>
         in (Inr u, (called ''User.create'' w)\<lparr>users := users w @ [u], clock := Suc (clock w)\<rparr>)))"

subsection \<open>The Employee model\<close>

text \<open>\<open>required: true\<close> on a string path.\<close>

fun required :: "string arg \<Rightarrow> bool" where
  "required (Val s) = (trim s \<noteq> [])"
| "required Undefined = False"
| "required Null = False"

text \<open>The validators of \<open>models/Employee.js\<close> on a new document.\<close>

definition validate_document :: "args \<Rightarrow> bool" where
  "validate_document doc =
     (required (first_name doc) \<and> required (last_name doc) \<and> required (email doc) \<and>
      required (designation doc) \<and> isFloat 1000 (salary doc) \<and>
      required (date_of_joining doc) \<and> required (department doc))"

text \<open>With \<open>runValidators\<close>, the same validators on the paths that an update sets.\<close>

definition validate_update :: "args \<Rightarrow> bool" where
  "validate_update upd =
     ((first_name upd = Undefined \<or> required (first_name upd)) \<and>
      (last_name upd = Undefined \<or> required (last_name upd)) \<and>
      (email upd = Undefined \<or> required (email upd)) \<and>
      (designation upd = Undefined \<or> required (designation upd)) \<and>
      (salary upd = Undefined \<or> isFloat 1000 (salary upd)) \<and>
      (date_of_joining upd = Undefined \<or> required (date_of_joining upd)) \<and>
      (department upd = Undefined \<or> required (department upd)))"

text \<open>The document made from the object passed to \<open>create\<close>: the setters of the schema run.\<close>

definition new_employee :: "nat \<Rightarrow> args \<Rightarrow> employee" where
  "new_employee n doc =
     \<lparr>e_id = ObjectId n,
      e_first_name = trim (toString (first_name doc)),
      e_last_name = trim (toString (last_name doc)),
      e_email = trim (toLowerCase (toString (email doc))),
      e_gender = trim_arg (gender doc),
      e_designation = trim (toString (designation doc)),
      e_salary = (case salary doc of Val x \<Rightarrow> x | _ \<Rightarrow> 0),
      e_date_of_joining = trim (toString (date_of_joining doc)),
      e_department = trim (toString (department doc)),
      e_employee_photo = trim_arg (employee_photo doc),
      created_at = n, updated_at = n\<rparr>"

text \<open>A path that the update does not name keeps its value.\<close>

definition set_string :: "string arg \<Rightarrow> string \<Rightarrow> string" where
  "set_string v old = (case v of Val s \<Rightarrow> trim s | _ \<Rightarrow> old)"

definition set_optional :: "string arg \<Rightarrow> string arg \<Rightarrow> string arg" where
  "set_optional v old = (case v of Undefined \<Rightarrow> old | _ \<Rightarrow> trim_arg v)"

definition apply_update :: "nat \<Rightarrow> args \<Rightarrow> employee \<Rightarrow> employee" where
  "apply_update n upd d =
     d\<lparr>e_first_name := set_string (first_name upd) (e_first_name d),
       e_last_name := set_string (last_name upd) (e_last_name d),
       e_email := (case email upd of Val s \<Rightarrow> trim (toLowerCase s) | _ \<Rightarrow> e_email d),
       e_gender := set_optional (gender upd) (e_gender d),
       e_designation := set_string (designation upd) (e_designation d),
       e_salary := (case salary upd of Val x \<Rightarrow> x | _ \<Rightarrow> e_salary d),
       e_date_of_joining := set_string (date_of_joining upd) (e_date_of_joining d),
       e_department := set_string (department upd) (e_department d),
       e_employee_photo := set_optional (employee_photo upd) (e_employee_photo d),
       updated_at := n\<rparr>"

text \<open>\<open>find(filter).sort({ created_at: -1 })\<close>: only \<open>created_at\<close> is a sort key here.\<close>

definition sorted_by :: "string \<times> int \<Rightarrow> employee list \<Rightarrow> employee list" where
  "sorted_by key ds =
     (if fst key = ''created_at''
      then (if snd key < 0 then rev (sort_key created_at ds) else sort_key created_at ds)
      else ds)"

definition mem_Employee_find ::
    "(regexp \<Rightarrow> string \<Rightarrow> bool) \<Rightarrow> employee_filter \<Rightarrow> string \<times> int \<Rightarrow> (mem, employee list) promise" where
  "mem_Employee_find engine f key w =
     (Inr (sorted_by key (filter (matches engine f) (employees w))), called ''Employee.find'' w)"

definition mem_Employee_findOne ::
    "(regexp \<Rightarrow> string \<Rightarrow> bool) \<Rightarrow> employee_filter \<Rightarrow> (mem, employee option) promise" where
  "mem_Employee_findOne engine f w =
     (Inr (find (matches engine f) (employees w)), called ''Employee.findOne'' w)"

definition mem_Employee_findById :: "string \<Rightarrow> (mem, employee option) promise" where
  "mem_Employee_findById i w =
     (Inr (find (\<lambda>d. e_id d = i) (employees w)), called ''Employee.findById'' w)"

definition mem_Employee_create :: "args \<Rightarrow> (mem, employee) promise" where
  "mem_Employee_create doc w =
     (if \<not> validate_document doc then (Inl schema_error, called ''Employee.create'' w)
      else if \<exists>d \<in> set (employees w). e_email d = e_email (new_employee (clock w) doc)
      then (Inl duplicate_key, called ''Employee.create'' w)
      else (Inr (new_employee (clock w) doc),
            (called ''Employee.create'' w)
              \<lparr>employees := employees w @ [new_employee (clock w) doc],
               clock := Suc (clock w)\<rparr>))"

definition mem_Employee_findByIdAndUpdate :: "string \<Rightarrow> args \<Rightarrow> (mem, employee option) promise" where
  "mem_Employee_findByIdAndUpdate i upd w =
     (if \<not> validate_update upd
      then (Inl schema_error, called ''Employee.findByIdAndUpdate'' w)
      else
        (case find (\<lambda>d. e_id d = i) (employees w) of
           None \<Rightarrow> (Inr None, called ''Employee.findByIdAndUpdate'' w)
         | Some d \<Rightarrow>
             if \<exists>x \<in> set (employees w).
                  e_id x \<noteq> i \<and> e_email x = e_email (apply_update (clock w) upd d)
             then (Inl duplicate_key, called ''Employee.findByIdAndUpdate'' w)
             else (Inr (Some (apply_update (clock w) upd d)),
                   (called ''Employee.findByIdAndUpdate'' w)
                     \<lparr>employees :=
                        map (\<lambda>x. if e_id x = i then apply_update (clock w) upd d else x)
                          (employees w),
                      clock := Suc (clock w)\<rparr>)))"

definition mem_Employee_findByIdAndDelete :: "string \<Rightarrow> (mem, employee option) promise" where
  "mem_Employee_findByIdAndDelete i w =
     (case find (\<lambda>d. e_id d = i) (employees w) of
        None \<Rightarrow> (Inr None, called ''Employee.findByIdAndDelete'' w)
      | Some d \<Rightarrow>
          (Inr (Some d),
           (called ''Employee.findByIdAndDelete'' w)
             \<lparr>employees := filter (\<lambda>x. e_id x \<noteq> i) (employees w)\<rparr>))"

subsection \<open>The resolvers' collaborators over the in-memory store\<close>

text \<open>
  The calls that do not touch the store are taken from \<open>b\<close>, which has no world of its
  own; each one is recorded in \<open>calls\<close>.
\<close>

definition lift :: "string \<Rightarrow> (unit \<Rightarrow> 'r \<times> unit) \<Rightarrow> mem \<Rightarrow> 'r \<times> mem" where
  "lift name p w = (fst (p ()), called name w)"

definition mem_env :: "(regexp \<Rightarrow> string \<Rightarrow> bool) \<Rightarrow> unit env \<Rightarrow> mem env" where
  "mem_env engine b =
     \<lparr>isEmail = isEmail b,
      isISO8601 = isISO8601 b,
      ObjectId_isValid = ObjectId_isValid b,
      RegExp_syntax = RegExp_syntax b,
      JWT_SECRET = JWT_SECRET b,
      bcrypt_hash = (\<lambda>p r. lift ''bcrypt.hash'' (bcrypt_hash b p r)),
      bcrypt_compare = (\<lambda>p h. lift ''bcrypt.compare'' (bcrypt_compare b p h)),
      jwt_sign = (\<lambda>pl k x. lift ''jwt.sign'' (jwt_sign b pl k x)),
      cloudinary_upload = (\<lambda>f d t. lift ''cloudinary.uploader.upload'' (cloudinary_upload b f d t)),
      User_findOne = mem_User_findOne,
      User_create = mem_User_create,
      Employee_find = mem_Employee_find engine,
      Employee_findById = mem_Employee_findById,
      Employee_findOne = mem_Employee_findOne engine,
      Employee_create = mem_Employee_create,
      Employee_findByIdAndUpdate = mem_Employee_findByIdAndUpdate,
      Employee_findByIdAndDelete = mem_Employee_findByIdAndDelete\<rparr>"

section \<open>A sample configuration\<close>

text \<open>
  Stand-ins for the libraries, used where a statement is evaluated on concrete inputs:
  an email has an \<open>@\<close> inside and no space, a date is \<open>YYYY-MM-DD\<close>, an identifier is 24
  hexadecimal digits, the hash of a password is its reversal behind the bcrypt prefix,
  and an upload succeeds on a data URI or a link; the payload \<open>unreachable\<close> stands for a
  request made while the image host cannot be reached, and \<open>void\<close> for a promise rejected
  without a value.
\<close>

definition sample_isEmail :: "string \<Rightarrow> bool" where
  "sample_isEmail s =
     (CHR ''@'' \<in> set s \<and> CHR '' '' \<notin> set s \<and> hd s \<noteq> CHR ''@'' \<and> last s \<noteq> CHR ''@'')"

definition sample_isISO8601 :: "string \<Rightarrow> bool" where
  "sample_isISO8601 s =
     (length s = 10 \<and> s ! 4 = CHR ''-'' \<and> s ! 7 = CHR ''-'' \<and>
      (\<forall>c \<in> set s. c \<in> set ''0123456789-''))"

definition sample_isValid :: "string \<Rightarrow> bool" where
  "sample_isValid s = (length s = 24 \<and> (\<forall>c \<in> set s. c \<in> set ''0123456789abcdefABCDEF''))"

definition sample_hash :: "string \<Rightarrow> string" where
  "sample_hash p = ''$2b$10$'' @ rev p"

definition upload_error :: native_error where
  "upload_error = \<lparr>err_name = ''Error'', err_message = Some ''Invalid image file'',
     err_code = None, err_keyPattern = None\<rparr>"

text \<open>
  What the uploader rejects with when the image host cannot be reached: an object that
  wraps the network error and has no \<open>message\<close> of its own.
\<close>

definition unreachable :: native_error where
  "unreachable = \<lparr>err_name = [], err_message = None, err_code = None, err_keyPattern = None\<rparr>"

definition sample_upload :: "string \<Rightarrow> string \<Rightarrow> rejection + string" where
  "sample_upload file folder =
     (if prefix ''data:image/'' file \<or> prefix ''http'' file
      then Inr (''https://res.cloudinary.com/demo/'' @ folder @ ''/photo.png'')
      else if file = ''unreachable'' then Inl (Object unreachable)
      else if file = ''void'' then Inl Nullish
      else Inl (Object upload_error))"

definition offline :: native_error where
  "offline = \<lparr>err_name = ''MongoNetworkError'', err_message = Some ''connection refused'',
     err_code = None, err_keyPattern = None\<rparr>"

text \<open>
  Patterns other than literal characters after an optional \<open>^\<close> do not occur in the
  concrete statements below: for them the stand-in compiles everything and matches
  nothing. The store functions of \<open>base\<close> are replaced by \<open>mem_env\<close>.
\<close>

definition base :: "string arg \<Rightarrow> unit env" where
  "base secret =
     \<lparr>isEmail = sample_isEmail,
      isISO8601 = sample_isISO8601,
      ObjectId_isValid = sample_isValid,
      RegExp_syntax = (\<lambda>p. None),
      JWT_SECRET = secret,
      bcrypt_hash = (\<lambda>p r w. (Inr (sample_hash p), w)),
      bcrypt_compare = (\<lambda>p h w. (Inr (h = sample_hash p), w)),
      jwt_sign = (\<lambda>pl k x w. (Inr (''token.'' @ userId pl @ ''.'' @ x), w)),
      cloudinary_upload = (\<lambda>f d t w. (sample_upload f d, w)),
      User_findOne = (\<lambda>f w. (Inl offline, w)),
      User_create = (\<lambda>d w. (Inl offline, w)),
      Employee_find = (\<lambda>f k w. (Inl offline, w)),
      Employee_findById = (\<lambda>i w. (Inl offline, w)),
      Employee_findOne = (\<lambda>f w. (Inl offline, w)),
      Employee_create = (\<lambda>d w. (Inl offline, w)),
      Employee_findByIdAndUpdate = (\<lambda>i u w. (Inl offline, w)),
      Employee_findByIdAndDelete = (\<lambda>i w. (Inl offline, w))\<rparr>"

definition sample :: "mem env" where
  "sample = mem_env (\<lambda>r s. False) (base (Val ''s3cret''))"

text \<open>The same configuration without a signing secret.\<close>

definition sample_no_secret :: "mem env" where
  "sample_no_secret = mem_env (\<lambda>r s. False) (base Undefined)"

text \<open>
  A store in which another request's writes land between this request's look-up and its
  own write: after \<open>findOne\<close> has resolved, the rival account and the rival employee are
  created.
\<close>

definition followed_by :: "(mem, 'a) promise \<Rightarrow> (mem, 'b) promise \<Rightarrow> (mem, 'a) promise" where
  "followed_by p other w = (fst (p w), snd (other (snd (p w))))"

definition racing :: "user_doc \<Rightarrow> args \<Rightarrow> mem env" where
  "racing rival_user rival_employee =
     sample
       \<lparr>User_findOne :=
          (\<lambda>f. followed_by (mem_User_findOne f) (mem_User_create rival_user)),
        Employee_findOne :=
          (\<lambda>f. followed_by (mem_Employee_findOne (\<lambda>r s. False) f)
                 (mem_Employee_create rival_employee))\<rparr>"

definition empty_store :: mem where
  "empty_store = \<lparr>users = [], employees = [], clock = 0, calls = []\<rparr>"

text \<open>A store with one account and two employees.\<close>

definition alice :: user where
  "alice = \<lparr>u_id = ''000000000000000000000000'', u_username = ''alice'',
     u_email = ''alice@example.com'', u_password = sample_hash ''secret1''\<rparr>"

definition ann :: employee where
  "ann = \<lparr>e_id = ''000000000000000000000001'', e_first_name = ''Ann'', e_last_name = ''Lee'',
     e_email = ''ann@example.com'', e_gender = Undefined, e_designation = ''Manager'',
     e_salary = 5000, e_date_of_joining = ''2024-01-15'', e_department = ''Engineering'',
     e_employee_photo = Null, created_at = 1, updated_at = 1\<rparr>"

definition bob :: employee where
  "bob = \<lparr>e_id = ''000000000000000000000002'', e_first_name = ''Bob'', e_last_name = ''Ray'',
     e_email = ''bob@example.com'', e_gender = Val ''male'', e_designation = ''Senior Manager'',
     e_salary = 7000, e_date_of_joining = ''2023-06-01'', e_department = ''Sales'',
     e_employee_photo = Null, created_at = 2, updated_at = 2\<rparr>"

definition store :: mem where
  "store = \<lparr>users = [alice], employees = [ann, bob], clock = 3, calls = []\<rparr>"

text \<open>The arguments of a first \<open>addEmployee\<close>, with the lowest salary allowed.\<close>

definition new_hire :: args where
  "new_hire = \<lparr>eid = Undefined, first_name = Val ''Cy'', last_name = Val ''Young'',
     email = Val ''Cy@Example.com'', gender = Undefined, designation = Val ''Clerk'',
     salary = Val 1000, date_of_joining = Val ''2025-03-01'', department = Val ''Sales'',
     employee_photo = Undefined\<rparr>"

text \<open>An update that names nothing.\<close>

definition no_update :: args where
  "no_update = \<lparr>eid = Undefined, first_name = Undefined, last_name = Undefined,
     email = Undefined, gender = Undefined, designation = Undefined, salary = Undefined,
     date_of_joining = Undefined, department = Undefined, employee_photo = Undefined\<rparr>"

section \<open>The rule table without the salary\<close>

text \<open>
  What the other fields of \<open>addEmployee\<close> and of \<open>updateEmployee\<close> have to satisfy
  (the spec's rule table, the salary left out).
\<close>

definition addEmployee_other_rules :: "'w env \<Rightarrow> args \<Rightarrow> bool" where
  "addEmployee_other_rules env a =
     (notEmpty (first_name a) \<and> notEmpty (last_name a) \<and>
      notEmpty (email a) \<and> isEmail env (toString (email a)) \<and>
      notEmpty (designation a) \<and>
      notEmpty (date_of_joining a) \<and> isISO8601 env (toString (date_of_joining a)) \<and>
      notEmpty (department a) \<and>
      (employee_photo a = Undefined \<or> isString (employee_photo a)))"

definition updateEmployee_other_rules :: "'w env \<Rightarrow> args \<Rightarrow> bool" where
  "updateEmployee_other_rules env a =
     (notEmpty (eid a) \<and> (email a = Undefined \<or> isEmail env (toString (email a))))"

section \<open>Sample requests\<close>

text \<open>
  The writes of a rival request, an update that takes the email of the new hire, a
  raise to the lowest salary, and an update of a record that does not exist.
\<close>

definition rival_user :: user_doc where
  "rival_user = \<lparr>d_username = ''carole'', d_email = ''carol@example.com'',
     d_password = sample_hash ''another''\<rparr>"

definition rival_employee :: args where
  "rival_employee = new_hire\<lparr>first_name := Val ''Cyd''\<rparr>"

definition ann_takes_cy :: args where
  "ann_takes_cy = no_update\<lparr>eid := Val ''000000000000000000000001'', email := Val ''Cy@Example.com''\<rparr>"

definition raise :: args where
  "raise = no_update\<lparr>eid := Val ''000000000000000000000001'', salary := Val 1000\<rparr>"

definition ghost_update :: args where
  "ghost_update = no_update\<lparr>eid := Val ''000000000000000000000009'', designation := Val ''Director''\<rparr>"

section \<open>The spec's words\<close>




section \<open>More samples, and what the store keeps true\<close>

text \<open>The account that a first signup of \<open>carol\<close> creates in \<open>store\<close>.\<close>

definition carol :: user where
  "carol = \<lparr>u_id = ''000000000000000000000003'', u_username = ''carol'',
     u_email = ''carol@example.com'', u_password = ''$2b$10$1terces''\<rparr>"

text \<open>
  What the schema's setters and its unique index keep true of the stored employees:
  every email is in lower case, and no two records have the same email.
\<close>

definition lower_cased_emails :: "mem \<Rightarrow> bool" where
  "lower_cased_emails w = (\<forall>d \<in> set (employees w). e_email d = toLowerCase (e_email d))"

definition unique_emails :: "mem \<Rightarrow> bool" where
  "unique_emails w = distinct (map e_email (employees w))"



section \<open>Login\<close>

lemma login_schema_valid: "6 \<le> length password \<Longrightarrow> runValidation (login_schema password) = None"
  by (auto simp: runValidation_def login_schema_def check_def notEmpty_def isLength_def)

lemma login_no_account:
  assumes "6 \<le> length password" and "truthy username \<or> truthy email'"
    and "User_findOne env (query username email') w = (Inr None, w1)"
  shows "login env username email' password w =
           (Inl (GraphQLError ''Invalid credentials.'' ''UNAUTHENTICATED'' NoDetails), w1)"
  using assms by (auto simp: login_def login_schema_valid throw_def await_def)

lemma login_account:
  assumes "6 \<le> length password" and "truthy username \<or> truthy email'"
    and "User_findOne env (query username email') w = (Inr (Some user), w1)"
    and "bcrypt_compare env password (u_password user) w1 = (Inr matched, w2)"
  shows "login env username email' password w =
           (if \<not> matched
            then (Inl (GraphQLError ''Invalid credentials.'' ''UNAUTHENTICATED'' NoDetails), w2)
            else if \<not> truthy (JWT_SECRET env)
            then (Inl (GraphQLError ''JWT_SECRET is not configured.'' ''INTERNAL_SERVER_ERROR''
                         NoDetails), w2)
            else await (jwt_sign env
                          \<lparr>userId = u_id user, p_username = u_username user,
                           p_email = u_email user\<rparr>
                          (toString (JWT_SECRET env)) ''1d'') return w2)"
  using assms by (auto simp: login_def login_schema_valid throw_def await_def)

text \<open>
  C4: for every \<open>login\<close> call whose password passes validation and that supplies a
  username or an email, the call fails with code \<open>UNAUTHENTICATED\<close> when the store finds
  no account and when it finds one whose password does not verify, and the error is the
  same value, message included, in both cases.
\<close>

theorem login_unauthenticated:
  assumes "6 \<le> length password" and "truthy username \<or> truthy email'"
  shows "(User_findOne env (query username email') w = (Inr None, w1) \<longrightarrow>
            login env username email' password w =
              (Inl (GraphQLError ''Invalid credentials.'' ''UNAUTHENTICATED'' NoDetails), w1)) \<and>
         (User_findOne env (query username email') w = (Inr (Some user), w1) \<and>
          bcrypt_compare env password (u_password user) w1 = (Inr False, w2) \<longrightarrow>
            login env username email' password w =
              (Inl (GraphQLError ''Invalid credentials.'' ''UNAUTHENTICATED'' NoDetails), w2))"
proof (intro conjI impI)
  assume "User_findOne env (query username email') w = (Inr None, w1)"
  with assms show "login env username email' password w =
      (Inl (GraphQLError ''Invalid credentials.'' ''UNAUTHENTICATED'' NoDetails), w1)"
    by (rule login_no_account)
next
  assume h: "User_findOne env (query username email') w = (Inr (Some user), w1) \<and>
             bcrypt_compare env password (u_password user) w1 = (Inr False, w2)"
  from login_account [OF assms conjunct1 [OF h] conjunct2 [OF h]]
  show "login env username email' password w =
      (Inl (GraphQLError ''Invalid credentials.'' ''UNAUTHENTICATED'' NoDetails), w2)"
    by simp
qed

theorem login_unauthenticated_witness:
  "login sample (Val ''nobody'') Undefined ''secret1'' store =
     (Inl (GraphQLError ''Invalid credentials.'' ''UNAUTHENTICATED'' NoDetails),
      called ''User.findOne'' store) \<and>
   login sample (Val ''alice'') Undefined ''secret2'' store =
     (Inl (GraphQLError ''Invalid credentials.'' ''UNAUTHENTICATED'' NoDetails),
      called ''bcrypt.compare'' (called ''User.findOne'' store))"
proof -
  have len: "6 \<le> length ''secret1''" "6 \<le> length ''secret2''"
    by simp_all
  have sup: "truthy (Val ''nobody'') \<or> truthy Undefined" "truthy (Val ''alice'') \<or> truthy Undefined"
    by simp_all
  have none: "User_findOne sample (query (Val ''nobody'') Undefined) store =
                (Inr None, called ''User.findOne'' store)"
    by code_simp
  have some: "User_findOne sample (query (Val ''alice'') Undefined) store =
                (Inr (Some alice), called ''User.findOne'' store)"
    by code_simp
  have wrong: "bcrypt_compare sample ''secret2'' (u_password alice) (called ''User.findOne'' store) =
                 (Inr False, called ''bcrypt.compare'' (called ''User.findOne'' store))"
    by code_simp
  show ?thesis
    using login_unauthenticated [OF len(1) sup(1), of sample store "called ''User.findOne'' store"]
      login_unauthenticated [OF len(2) sup(2), of sample store "called ''User.findOne'' store" alice
        "called ''bcrypt.compare'' (called ''User.findOne'' store)"]
      none some wrong
    by simp
qed

text \<open>
  C10 as stated fails: with the signing secret unset, a call whose password is shorter
  than six characters is rejected with \<open>BAD_USER_INPUT\<close> although no account matches its
  username, and so is a call that supplies neither a username nor an email.
\<close>

theorem login_secret_unset_counterexample:
  "JWT_SECRET sample_no_secret = Undefined \<and>
   fst (User_findOne sample_no_secret (query (Val ''nobody'') Undefined) store) = Inr None \<and>
   login sample_no_secret (Val ''nobody'') Undefined ''abc'' store =
     (Inl (GraphQLError ''Password must be at least 6 characters.'' ''BAD_USER_INPUT''
             (ErrorArray [ValidationError ''Password must be at least 6 characters.'' ''password''])),
      store) \<and>
   login sample_no_secret Undefined Undefined ''secret1'' store =
     (Inl (GraphQLError ''Either username or email is required for login.'' ''BAD_USER_INPUT''
             NoDetails), store)"
proof -
  have unset: "JWT_SECRET sample_no_secret = Undefined"
    by code_simp
  have none: "fst (User_findOne sample_no_secret (query (Val ''nobody'') Undefined) store) = Inr None"
    by code_simp
  have short: "runValidation (login_schema ''abc'') =
      Some (GraphQLError ''Password must be at least 6 characters.'' ''BAD_USER_INPUT''
             (ErrorArray [ValidationError ''Password must be at least 6 characters.'' ''password'']))"
    by code_simp
  have long: "runValidation (login_schema ''secret1'') = None"
    by code_simp
  from unset none show ?thesis
    by (simp add: login_def short long throw_def)
qed

text \<open>
  C10, amended: in \<open>login\<close> the credentials are verified before the signing secret is
  read. With the secret unset, a call whose password passes validation and that supplies
  a username or an email fails with \<open>UNAUTHENTICATED\<close> when no account is found and when
  the password does not verify; it fails with the \<open>INTERNAL_SERVER_ERROR\<close> of the missing
  secret when the account is found and the password verifies, and only then.
\<close>

theorem login_secret_checked_last:
  assumes "\<not> truthy (JWT_SECRET env)" and "6 \<le> length password"
    and "truthy username \<or> truthy email'"
  shows "(User_findOne env (query username email') w = (Inr None, w1) \<longrightarrow>
            login env username email' password w =
              (Inl (GraphQLError ''Invalid credentials.'' ''UNAUTHENTICATED'' NoDetails), w1)) \<and>
         (User_findOne env (query username email') w = (Inr (Some user), w1) \<and>
          bcrypt_compare env password (u_password user) w1 = (Inr False, w2) \<longrightarrow>
            login env username email' password w =
              (Inl (GraphQLError ''Invalid credentials.'' ''UNAUTHENTICATED'' NoDetails), w2)) \<and>
         (User_findOne env (query username email') w = (Inr (Some user), w1) \<and>
          bcrypt_compare env password (u_password user) w1 = (Inr True, w2) \<longrightarrow>
            login env username email' password w =
              (Inl (GraphQLError ''JWT_SECRET is not configured.'' ''INTERNAL_SERVER_ERROR''
                      NoDetails), w2)) \<and>
         (fst (login env username email' password w) =
            Inl (GraphQLError ''JWT_SECRET is not configured.'' ''INTERNAL_SERVER_ERROR'' NoDetails)
          \<longrightarrow> (\<exists>u v v'. User_findOne env (query username email') w = (Inr (Some u), v) \<and>
                  bcrypt_compare env password (u_password u) v = (Inr True, v')))"
proof (intro conjI impI)
  assume "User_findOne env (query username email') w = (Inr None, w1)"
  with assms(2,3) show "login env username email' password w =
      (Inl (GraphQLError ''Invalid credentials.'' ''UNAUTHENTICATED'' NoDetails), w1)"
    by (rule login_no_account)
next
  assume h: "User_findOne env (query username email') w = (Inr (Some user), w1) \<and>
             bcrypt_compare env password (u_password user) w1 = (Inr False, w2)"
  from login_account [OF assms(2,3) conjunct1 [OF h] conjunct2 [OF h]]
  show "login env username email' password w =
      (Inl (GraphQLError ''Invalid credentials.'' ''UNAUTHENTICATED'' NoDetails), w2)"
    by simp
next
  assume h: "User_findOne env (query username email') w = (Inr (Some user), w1) \<and>
             bcrypt_compare env password (u_password user) w1 = (Inr True, w2)"
  from login_account [OF assms(2,3) conjunct1 [OF h] conjunct2 [OF h]] assms(1)
  show "login env username email' password w =
      (Inl (GraphQLError ''JWT_SECRET is not configured.'' ''INTERNAL_SERVER_ERROR'' NoDetails), w2)"
    by simp
next
  assume r: "fst (login env username email' password w) =
      Inl (GraphQLError ''JWT_SECRET is not configured.'' ''INTERNAL_SERVER_ERROR'' NoDetails)"
  obtain found v where f: "User_findOne env (query username email') w = (found, v)"
    by (cases "User_findOne env (query username email') w")
  show "\<exists>u v v'. User_findOne env (query username email') w = (Inr (Some u), v) \<and>
                  bcrypt_compare env password (u_password u) v = (Inr True, v')"
  proof (cases found)
    case (Inl e)
    with f r assms(2,3) show ?thesis
      by (auto simp: login_def login_schema_valid await_def)
  next
    case (Inr ou)
    show ?thesis
    proof (cases ou)
      case None
      with Inr f r assms(2,3) show ?thesis
        by (simp add: login_no_account)
    next
      case (Some u)
      obtain res v' where c: "bcrypt_compare env password (u_password u) v = (res, v')"
        by (cases "bcrypt_compare env password (u_password u) v")
      show ?thesis
      proof (cases res)
        case (Inl e)
        with Some Inr f c r assms(2,3) show ?thesis
          by (auto simp: login_def login_schema_valid await_def)
      next
        case (Inr matched)
        with Some \<open>found = Inr ou\<close> f c r login_account [OF assms(2,3), of env w u v matched v']
        show ?thesis
          by (cases matched) auto
      qed
    qed
  qed
qed

theorem login_secret_checked_last_witness:
  "login sample_no_secret (Val ''nobody'') Undefined ''secret1'' store =
     (Inl (GraphQLError ''Invalid credentials.'' ''UNAUTHENTICATED'' NoDetails),
      called ''User.findOne'' store) \<and>
   login sample_no_secret Undefined (Val ''Alice@Example.com'') ''secret2'' store =
     (Inl (GraphQLError ''Invalid credentials.'' ''UNAUTHENTICATED'' NoDetails),
      called ''bcrypt.compare'' (called ''User.findOne'' store)) \<and>
   login sample_no_secret Undefined (Val ''Alice@Example.com'') ''secret1'' store =
     (Inl (GraphQLError ''JWT_SECRET is not configured.'' ''INTERNAL_SERVER_ERROR'' NoDetails),
      called ''bcrypt.compare'' (called ''User.findOne'' store))"
proof -
  have unset: "\<not> truthy (JWT_SECRET sample_no_secret)"
    by code_simp
  have len: "6 \<le> length ''secret1''" "6 \<le> length ''secret2''"
    by simp_all
  have sup: "truthy (Val ''nobody'') \<or> truthy Undefined"
    "truthy Undefined \<or> truthy (Val ''Alice@Example.com'')"
    by simp_all
  have none: "User_findOne sample_no_secret (query (Val ''nobody'') Undefined) store =
                (Inr None, called ''User.findOne'' store)"
    by code_simp
  have some: "User_findOne sample_no_secret (query Undefined (Val ''Alice@Example.com'')) store =
                (Inr (Some alice), called ''User.findOne'' store)"
    by code_simp
  have wrong: "bcrypt_compare sample_no_secret ''secret2'' (u_password alice)
                 (called ''User.findOne'' store) =
                 (Inr False, called ''bcrypt.compare'' (called ''User.findOne'' store))"
    by code_simp
  have right: "bcrypt_compare sample_no_secret ''secret1'' (u_password alice)
                 (called ''User.findOne'' store) =
                 (Inr True, called ''bcrypt.compare'' (called ''User.findOne'' store))"
    by code_simp
  show ?thesis
    using login_secret_checked_last [OF unset len(1) sup(1), of store "called ''User.findOne'' store"]
      login_secret_checked_last [OF unset len(2) sup(2), of store "called ''User.findOne'' store"
        alice "called ''bcrypt.compare'' (called ''User.findOne'' store)"]
      login_secret_checked_last [OF unset len(1) sup(2), of store "called ''User.findOne'' store"
        alice "called ''bcrypt.compare'' (called ''User.findOne'' store)"]
      none some wrong right
    by simp
qed

section \<open>Identifiers\<close>

text \<open>
  C6: for every identifier, \<open>getEmployeeById\<close> and \<open>deleteEmployee\<close> fail with
  \<open>BAD_USER_INPUT\<close> when the identifier is not structurally valid, and with \<open>NOT_FOUND\<close>
  when it is valid and the store finds no record. The structural check comes before any
  look-up: on a malformed identifier the world is returned as it was, whatever the
  store's functions do.
\<close>

theorem identifier_checked_first:
  "(\<not> ObjectId_isValid env i \<longrightarrow>
      getEmployeeById env i w =
        (Inl (GraphQLError ''Invalid employee ID.'' ''BAD_USER_INPUT'' NoDetails), w) \<and>
      deleteEmployee env i w =
        (Inl (GraphQLError ''Invalid employee ID.'' ''BAD_USER_INPUT'' NoDetails), w)) \<and>
   (ObjectId_isValid env i \<and> Employee_findById env i w = (Inr None, w1) \<longrightarrow>
      getEmployeeById env i w =
        (Inl (GraphQLError ''Employee not found.'' ''NOT_FOUND'' NoDetails), w1)) \<and>
   (ObjectId_isValid env i \<and> Employee_findByIdAndDelete env i w = (Inr None, w2) \<longrightarrow>
      deleteEmployee env i w =
        (Inl (GraphQLError ''Employee not found.'' ''NOT_FOUND'' NoDetails), w2))"
  by (simp add: getEmployeeById_def deleteEmployee_def throw_def await_def)

theorem identifier_checked_first_witness:
  "getEmployeeById sample ''not-an-id'' store =
     (Inl (GraphQLError ''Invalid employee ID.'' ''BAD_USER_INPUT'' NoDetails), store) \<and>
   deleteEmployee sample ''not-an-id'' store =
     (Inl (GraphQLError ''Invalid employee ID.'' ''BAD_USER_INPUT'' NoDetails), store) \<and>
   calls store = [] \<and>
   getEmployeeById sample ''000000000000000000000009'' store =
     (Inl (GraphQLError ''Employee not found.'' ''NOT_FOUND'' NoDetails),
      called ''Employee.findById'' store) \<and>
   deleteEmployee sample ''000000000000000000000009'' store =
     (Inl (GraphQLError ''Employee not found.'' ''NOT_FOUND'' NoDetails),
      called ''Employee.findByIdAndDelete'' store)"
proof -
  have bad: "\<not> ObjectId_isValid sample ''not-an-id''"
    by code_simp
  have good: "ObjectId_isValid sample ''000000000000000000000009''"
    by code_simp
  have quiet: "calls store = []"
    by code_simp
  have missing: "Employee_findById sample ''000000000000000000000009'' store =
                   (Inr None, called ''Employee.findById'' store)"
    by code_simp
  have missing': "Employee_findByIdAndDelete sample ''000000000000000000000009'' store =
                   (Inr None, called ''Employee.findByIdAndDelete'' store)"
    by code_simp
  show ?thesis
    using identifier_checked_first [of sample "''not-an-id''" store]
      identifier_checked_first [of sample "''000000000000000000000009''" store
        "called ''Employee.findById'' store" "called ''Employee.findByIdAndDelete'' store"]
      bad good quiet missing missing'
    by simp
qed

section \<open>Photo upload\<close>

lemma uploadEmployeePhoto_absent:
  "\<not> truthy payload \<Longrightarrow> uploadEmployeePhoto env payload w = (Inr Null, w)"
  by (simp add: uploadEmployeePhoto_def return_def)

lemma uploadEmployeePhoto_rejected:
  assumes "truthy payload"
    and "cloudinary_upload env (toString payload) ''employee-management/employees'' ''image'' w =
           (Inl r, w')"
  shows "uploadEmployeePhoto env payload w =
           (case r of
              Nullish \<Rightarrow> (Inl (Native TypeError_message), w')
            | Object error \<Rightarrow>
                (Inl (GraphQLError ''Employee photo upload failed.'' ''INTERNAL_SERVER_ERROR''
                        (Message (err_message error))), w'))"
  using assms by (cases r) (simp_all add: uploadEmployeePhoto_def)

text \<open>
  C9: the claim is that a rejected upload is always thrown again as a typed error that
  carries the underlying message, and never as a raw failure. The \<open>catch\<close> block reads
  \<open>error.message\<close> of whatever the upload rejected with. When the image host cannot be
  reached the uploader rejects with an object that has no \<open>message\<close>, and the typed error
  is thrown with \<open>details\<close> undefined; when the promise is rejected with \<open>null\<close> or
  \<open>undefined\<close>, the \<open>catch\<close> block itself throws a raw \<open>TypeError\<close>.
\<close>

theorem upload_rejection_without_message:
  "cloudinary_upload sample ''unreachable'' ''employee-management/employees'' ''image'' store =
     (Inl (Object unreachable), called ''cloudinary.uploader.upload'' store) \<and>
   err_message unreachable = None \<and>
   uploadEmployeePhoto sample (Val ''unreachable'') store =
     (Inl (GraphQLError ''Employee photo upload failed.'' ''INTERNAL_SERVER_ERROR'' (Message None)),
      called ''cloudinary.uploader.upload'' store) \<and>
   cloudinary_upload sample ''void'' ''employee-management/employees'' ''image'' store =
     (Inl Nullish, called ''cloudinary.uploader.upload'' store) \<and>
   uploadEmployeePhoto sample (Val ''void'') store =
     (Inl (Native TypeError_message), called ''cloudinary.uploader.upload'' store)"
proof -
  have down: "cloudinary_upload sample (toString (Val ''unreachable''))
                ''employee-management/employees'' ''image'' store =
                (Inl (Object unreachable), called ''cloudinary.uploader.upload'' store)"
    by code_simp
  have silent: "err_message unreachable = None"
    by code_simp
  have void: "cloudinary_upload sample (toString (Val ''void''))
                ''employee-management/employees'' ''image'' store =
                (Inl Nullish, called ''cloudinary.uploader.upload'' store)"
    by code_simp
  have "uploadEmployeePhoto sample (Val ''unreachable'') store =
     (Inl (GraphQLError ''Employee photo upload failed.'' ''INTERNAL_SERVER_ERROR'' (Message None)),
      called ''cloudinary.uploader.upload'' store)"
    using uploadEmployeePhoto_rejected [OF _ down] silent by simp
  moreover have "uploadEmployeePhoto sample (Val ''void'') store =
     (Inl (Native TypeError_message), called ''cloudinary.uploader.upload'' store)"
    using uploadEmployeePhoto_rejected [OF _ void] by simp
  ultimately show ?thesis
    using down silent void by simp
qed

section \<open>Validation\<close>

lemma runValidation_None: "runValidation errors = None \<longleftrightarrow> errors = []"
  by (simp add: runValidation_def split: list.splits)

lemma runValidation_Some:
  "errors \<noteq> [] \<Longrightarrow> \<exists>m d. runValidation errors = Some (GraphQLError m ''BAD_USER_INPUT'' d)"
  by (cases errors) (simp_all add: runValidation_def)

lemma notEmpty_Val: "notEmpty v \<Longrightarrow> v = Val (toString v)"
  by (cases v) (simp_all add: notEmpty_def)

lemma addEmployee_schema_email:
  "runValidation (addEmployee_schema env a) = None \<Longrightarrow> email a = Val (toString (email a))"
  by (rule notEmpty_Val)
     (auto simp: runValidation_None addEmployee_schema_def check_def split: if_splits)

lemma updateEmployee_schema_eid:
  "runValidation (updateEmployee_schema env a) = None \<Longrightarrow> eid a = Val (toString (eid a))"
  by (rule notEmpty_Val)
     (auto simp: runValidation_None updateEmployee_schema_def check_def split: if_splits)

text \<open>What the resolvers do once validation has passed.\<close>

lemma signup_validated:
  "runValidation (signup_schema env username email' password) = None \<Longrightarrow>
   signup env username email' password =
     await (User_findOne env (Email (toLowerCase email')))
       (\<lambda>existingUser. case existingUser of
          Some _ \<Rightarrow> throw (GraphQLError ''Email already exists.'' ''BAD_USER_INPUT'' NoDetails)
        | None \<Rightarrow>
            await (bcrypt_hash env password 10)
              (\<lambda>hashedPassword.
                 try_catch
                   (await (User_create env
                             \<lparr>d_username = username, d_email = toLowerCase email',
                              d_password = hashedPassword\<rparr>)
                      return)
                   handleDuplicateEmailError))"
  by (simp add: signup_def)

lemma addEmployee_validated:
  assumes "runValidation (addEmployee_schema env a) = None"
  shows "addEmployee env a =
     await (Employee_findOne env (no_filter\<lparr>f_email := Some (toLowerCase (toString (email a)))\<rparr>))
       (\<lambda>existingEmployee. case existingEmployee of
          Some _ \<Rightarrow> throw (GraphQLError ''Email already exists.'' ''BAD_USER_INPUT'' NoDetails)
        | None \<Rightarrow>
            await_async (photoUrl env a)
              (\<lambda>photoUrl'.
                 try_catch
                   (await (Employee_create env
                             (a\<lparr>email := Val (toLowerCase (toString (email a))),
                                employee_photo := photoUrl'\<rparr>))
                      return)
                   handleDuplicateEmailError))"
proof -
  from assms have "email a = Val (toString (email a))"
    by (rule addEmployee_schema_email)
  then obtain m where "email a = Val m" ..
  with assms show ?thesis
    by (simp add: addEmployee_def cong: option.case_cong)
qed

lemma updateEmployee_validated:
  assumes "runValidation (updateEmployee_schema env a) = None"
    and "ObjectId_isValid env (toString (eid a))"
  shows "updateEmployee env a =
     await_async (updates env a)
       (\<lambda>updates'.
          try_catch
            (await (Employee_findByIdAndUpdate env (toString (eid a)) updates')
               (\<lambda>updatedEmployee. case updatedEmployee of
                  None \<Rightarrow> throw (GraphQLError ''Employee not found.'' ''NOT_FOUND'' NoDetails)
                | Some employee \<Rightarrow> return employee))
            handleDuplicateEmailError)"
proof -
  from assms(1) have "eid a = Val (toString (eid a))"
    by (rule updateEmployee_schema_eid)
  then obtain i where "eid a = Val i" ..
  with assms show ?thesis
    by (simp add: updateEmployee_def)
qed

lemma handle_duplicate:
  "err_code error = Some 11000 \<Longrightarrow> keyPattern_email error \<Longrightarrow>
   handleDuplicateEmailError (Native error) =
     GraphQLError ''Email already exists.'' ''BAD_USER_INPUT'' NoDetails"
  by simp

section \<open>Duplicate keys\<close>

text \<open>
  C5: when the write of \<open>signup\<close>, \<open>addEmployee\<close> or \<open>updateEmployee\<close> is rejected by
  the store with a duplicate-key error on \<open>email\<close> (code 11000, \<open>keyPattern.email\<close> set),
  the operation fails with the \<open>GraphQLError\<close> \<open>Email already exists.\<close> and code
  \<open>BAD_USER_INPUT\<close>, which is the very error that the pre-check throws when it finds the
  email.
\<close>

theorem duplicate_key_is_remapped:
  assumes "err_code error = Some 11000" and "keyPattern_email error"
  shows "(runValidation (signup_schema env username email' password) = None \<and>
          User_findOne env (Email (toLowerCase email')) w = (Inr None, w1) \<and>
          bcrypt_hash env password 10 w1 = (Inr h, w2) \<and>
          User_create env
            \<lparr>d_username = username, d_email = toLowerCase email', d_password = h\<rparr> w2 =
            (Inl error, w3)
          \<longrightarrow> signup env username email' password w =
                (Inl (GraphQLError ''Email already exists.'' ''BAD_USER_INPUT'' NoDetails), w3)) \<and>
         (runValidation (signup_schema env username email' password) = None \<and>
          User_findOne env (Email (toLowerCase email')) w = (Inr (Some u), w1)
          \<longrightarrow> signup env username email' password w =
                (Inl (GraphQLError ''Email already exists.'' ''BAD_USER_INPUT'' NoDetails), w1)) \<and>
         (runValidation (addEmployee_schema env a) = None \<and>
          Employee_findOne env (no_filter\<lparr>f_email := Some (toLowerCase (toString (email a)))\<rparr>) w =
            (Inr None, w1) \<and>
          photoUrl env a w1 = (Inr url, w2) \<and>
          Employee_create env
            (a\<lparr>email := Val (toLowerCase (toString (email a))), employee_photo := url\<rparr>) w2 =
            (Inl error, w3)
          \<longrightarrow> addEmployee env a w =
                (Inl (GraphQLError ''Email already exists.'' ''BAD_USER_INPUT'' NoDetails), w3)) \<and>
         (runValidation (addEmployee_schema env a) = None \<and>
          Employee_findOne env (no_filter\<lparr>f_email := Some (toLowerCase (toString (email a)))\<rparr>) w =
            (Inr (Some d), w1)
          \<longrightarrow> addEmployee env a w =
                (Inl (GraphQLError ''Email already exists.'' ''BAD_USER_INPUT'' NoDetails), w1)) \<and>
         (runValidation (updateEmployee_schema env a) = None \<and>
          ObjectId_isValid env (toString (eid a)) \<and>
          updates env a w = (Inr upd, w1) \<and>
          Employee_findByIdAndUpdate env (toString (eid a)) upd w1 = (Inl error, w2)
          \<longrightarrow> updateEmployee env a w =
                (Inl (GraphQLError ''Email already exists.'' ''BAD_USER_INPUT'' NoDetails), w2)) \<and>
         (runValidation (updateEmployee_schema env a) = None \<and>
          ObjectId_isValid env (toString (eid a)) \<and>
          truthy (email a) \<and>
          Employee_findOne env
            (no_filter\<lparr>f_id_ne := Some (toString (eid a)),
                       f_email := Some (toLowerCase (toString (email a)))\<rparr>) w = (Inr (Some d), w1)
          \<longrightarrow> updateEmployee env a w =
                (Inl (GraphQLError ''Email already exists.'' ''BAD_USER_INPUT'' NoDetails), w1))"
proof -
  note dup = handle_duplicate [OF assms]
  show ?thesis
  proof (intro conjI impI)
    assume "runValidation (signup_schema env username email' password) = None \<and>
          User_findOne env (Email (toLowerCase email')) w = (Inr None, w1) \<and>
          bcrypt_hash env password 10 w1 = (Inr h, w2) \<and>
          User_create env
            \<lparr>d_username = username, d_email = toLowerCase email', d_password = h\<rparr> w2 =
            (Inl error, w3)"
    then show "signup env username email' password w =
                (Inl (GraphQLError ''Email already exists.'' ''BAD_USER_INPUT'' NoDetails), w3)"
      by (simp add: signup_validated await_def try_catch_def assms)
  next
    assume "runValidation (signup_schema env username email' password) = None \<and>
          User_findOne env (Email (toLowerCase email')) w = (Inr (Some u), w1)"
    then show "signup env username email' password w =
                (Inl (GraphQLError ''Email already exists.'' ''BAD_USER_INPUT'' NoDetails), w1)"
      by (simp add: signup_validated await_def throw_def)
  next
    assume "runValidation (addEmployee_schema env a) = None \<and>
          Employee_findOne env (no_filter\<lparr>f_email := Some (toLowerCase (toString (email a)))\<rparr>) w =
            (Inr None, w1) \<and>
          photoUrl env a w1 = (Inr url, w2) \<and>
          Employee_create env
            (a\<lparr>email := Val (toLowerCase (toString (email a))), employee_photo := url\<rparr>) w2 =
            (Inl error, w3)"
    then show "addEmployee env a w =
                (Inl (GraphQLError ''Email already exists.'' ''BAD_USER_INPUT'' NoDetails), w3)"
      by (simp add: addEmployee_validated await_def await_async_def try_catch_def assms)
  next
    assume "runValidation (addEmployee_schema env a) = None \<and>
          Employee_findOne env (no_filter\<lparr>f_email := Some (toLowerCase (toString (email a)))\<rparr>) w =
            (Inr (Some d), w1)"
    then show "addEmployee env a w =
                (Inl (GraphQLError ''Email already exists.'' ''BAD_USER_INPUT'' NoDetails), w1)"
      by (simp add: addEmployee_validated await_def throw_def)
  next
    assume "runValidation (updateEmployee_schema env a) = None \<and>
          ObjectId_isValid env (toString (eid a)) \<and>
          updates env a w = (Inr upd, w1) \<and>
          Employee_findByIdAndUpdate env (toString (eid a)) upd w1 = (Inl error, w2)"
    then show "updateEmployee env a w =
                (Inl (GraphQLError ''Email already exists.'' ''BAD_USER_INPUT'' NoDetails), w2)"
      by (simp add: updateEmployee_validated await_def await_async_def try_catch_def assms)
  next
    assume "runValidation (updateEmployee_schema env a) = None \<and>
          ObjectId_isValid env (toString (eid a)) \<and>
          truthy (email a) \<and>
          Employee_findOne env
            (no_filter\<lparr>f_id_ne := Some (toString (eid a)),
                       f_email := Some (toLowerCase (toString (email a)))\<rparr>) w = (Inr (Some d), w1)"
    then show "updateEmployee env a w =
                (Inl (GraphQLError ''Email already exists.'' ''BAD_USER_INPUT'' NoDetails), w1)"
      by (simp add: updateEmployee_validated updates_def await_def await_async_def throw_def)
  qed
qed

theorem duplicate_key_is_remapped_witness:
  "fst (signup (racing rival_user rival_employee) ''carol'' ''Carol@Example.com'' ''secret1'' store) =
     Inl (GraphQLError ''Email already exists.'' ''BAD_USER_INPUT'' NoDetails) \<and>
   fst (signup (racing rival_user rival_employee) ''alice2'' ''Alice@Example.com'' ''secret1'' store) =
     Inl (GraphQLError ''Email already exists.'' ''BAD_USER_INPUT'' NoDetails) \<and>
   fst (addEmployee (racing rival_user rival_employee) new_hire store) =
     Inl (GraphQLError ''Email already exists.'' ''BAD_USER_INPUT'' NoDetails) \<and>
   fst (addEmployee (racing rival_user rival_employee) (new_hire\<lparr>email := Val ''ANN@example.com''\<rparr>)
          store) =
     Inl (GraphQLError ''Email already exists.'' ''BAD_USER_INPUT'' NoDetails) \<and>
   fst (updateEmployee (racing rival_user rival_employee) ann_takes_cy store) =
     Inl (GraphQLError ''Email already exists.'' ''BAD_USER_INPUT'' NoDetails) \<and>
   fst (updateEmployee (racing rival_user rival_employee)
          (ann_takes_cy\<lparr>email := Val ''Bob@Example.com''\<rparr>) store) =
     Inl (GraphQLError ''Email already exists.'' ''BAD_USER_INPUT'' NoDetails)"
proof -
  let ?r = "racing rival_user rival_employee"
  let ?w1 = "snd (User_findOne ?r (Email (toLowerCase ''Carol@Example.com'')) store)"
  let ?w2 = "snd (bcrypt_hash ?r ''secret1'' 10 ?w1)"
  let ?w3 = "snd (User_create ?r
               \<lparr>d_username = ''carol'', d_email = toLowerCase ''Carol@Example.com'',
                d_password = sample_hash ''secret1''\<rparr> ?w2)"
  let ?v1 = "snd (Employee_findOne ?r
               (no_filter\<lparr>f_email := Some (toLowerCase (toString (email new_hire)))\<rparr>) store)"
  let ?v3 = "snd (Employee_create ?r
               (new_hire\<lparr>email := Val (toLowerCase (toString (email new_hire))),
                          employee_photo := Null\<rparr>) ?v1)"
  let ?upd = "ann_takes_cy\<lparr>eid := Undefined, email := Val ''cy@example.com''\<rparr>"
  let ?x1 = "snd (updates ?r ann_takes_cy store)"
  let ?x2 = "snd (Employee_findByIdAndUpdate ?r (toString (eid ann_takes_cy)) ?upd ?x1)"
  have code: "err_code duplicate_key = Some 11000" and key: "keyPattern_email duplicate_key"
    by code_simp+
  have s0: "runValidation (signup_schema ?r ''carol'' ''Carol@Example.com'' ''secret1'') = None"
    by code_simp
  have s1: "User_findOne ?r (Email (toLowerCase ''Carol@Example.com'')) store = (Inr None, ?w1)"
    by code_simp
  have s2: "bcrypt_hash ?r ''secret1'' 10 ?w1 = (Inr (sample_hash ''secret1''), ?w2)"
    by code_simp
  have s3: "User_create ?r
               \<lparr>d_username = ''carol'', d_email = toLowerCase ''Carol@Example.com'',
                d_password = sample_hash ''secret1''\<rparr> ?w2 = (Inl duplicate_key, ?w3)"
    by code_simp
  have p0: "runValidation (signup_schema ?r ''alice2'' ''Alice@Example.com'' ''secret1'') = None"
    by code_simp
  have p1: "User_findOne ?r (Email (toLowerCase ''Alice@Example.com'')) store =
              (Inr (Some alice), snd (User_findOne ?r (Email (toLowerCase ''Alice@Example.com'')) store))"
    by code_simp
  have a0: "runValidation (addEmployee_schema ?r new_hire) = None"
    by code_simp
  have a1: "Employee_findOne ?r
               (no_filter\<lparr>f_email := Some (toLowerCase (toString (email new_hire)))\<rparr>) store =
               (Inr None, ?v1)"
    by code_simp
  have a2: "photoUrl ?r new_hire ?v1 = (Inr Null, ?v1)"
    by code_simp
  have a3: "Employee_create ?r
               (new_hire\<lparr>email := Val (toLowerCase (toString (email new_hire))),
                          employee_photo := Null\<rparr>) ?v1 = (Inl duplicate_key, ?v3)"
    by code_simp
  let ?dupl = "new_hire\<lparr>email := Val ''ANN@example.com''\<rparr>"
  have b0: "runValidation (addEmployee_schema ?r ?dupl) = None"
    by code_simp
  have b1: "Employee_findOne ?r
               (no_filter\<lparr>f_email := Some (toLowerCase (toString (email ?dupl)))\<rparr>) store =
               (Inr (Some ann), snd (Employee_findOne ?r
               (no_filter\<lparr>f_email := Some (toLowerCase (toString (email ?dupl)))\<rparr>) store))"
    by code_simp
  have u0: "runValidation (updateEmployee_schema ?r ann_takes_cy) = None"
    by code_simp
  have u1: "ObjectId_isValid ?r (toString (eid ann_takes_cy))"
    by code_simp
  have u2: "updates ?r ann_takes_cy store = (Inr ?upd, ?x1)"
    by code_simp
  have u3: "Employee_findByIdAndUpdate ?r (toString (eid ann_takes_cy)) ?upd ?x1 =
              (Inl duplicate_key, ?x2)"
    by code_simp
  let ?bobs = "ann_takes_cy\<lparr>email := Val ''Bob@Example.com''\<rparr>"
  let ?bq = "no_filter\<lparr>f_id_ne := Some (toString (eid ?bobs)),
                        f_email := Some (toLowerCase (toString (email ?bobs)))\<rparr>"
  have c0: "runValidation (updateEmployee_schema ?r ?bobs) = None"
    by code_simp
  have c1: "ObjectId_isValid ?r (toString (eid ?bobs))"
    by code_simp
  have c2: "truthy (email ?bobs)"
    by code_simp
  have c3: "Employee_findOne ?r ?bq store = (Inr (Some bob), snd (Employee_findOne ?r ?bq store))"
    by code_simp
  note remap = duplicate_key_is_remapped [OF code key]
  have "signup ?r ''carol'' ''Carol@Example.com'' ''secret1'' store =
          (Inl (GraphQLError ''Email already exists.'' ''BAD_USER_INPUT'' NoDetails), ?w3)"
    by (rule remap [THEN conjunct1, rule_format])
      (rule conjI, rule s0, rule conjI, rule s1, rule conjI, rule s2, rule s3)
  moreover have "signup ?r ''alice2'' ''Alice@Example.com'' ''secret1'' store =
          (Inl (GraphQLError ''Email already exists.'' ''BAD_USER_INPUT'' NoDetails),
           snd (User_findOne ?r (Email (toLowerCase ''Alice@Example.com'')) store))"
    by (rule remap [THEN conjunct2, THEN conjunct1, rule_format])
      (rule conjI, rule p0, rule p1)
  moreover have "addEmployee ?r new_hire store =
          (Inl (GraphQLError ''Email already exists.'' ''BAD_USER_INPUT'' NoDetails), ?v3)"
    by (rule remap [THEN conjunct2, THEN conjunct2, THEN conjunct1, rule_format])
      (rule conjI, rule a0, rule conjI, rule a1, rule conjI, rule a2, rule a3)
  moreover have "addEmployee ?r ?dupl store =
          (Inl (GraphQLError ''Email already exists.'' ''BAD_USER_INPUT'' NoDetails),
           snd (Employee_findOne ?r
               (no_filter\<lparr>f_email := Some (toLowerCase (toString (email ?dupl)))\<rparr>) store))"
    by (rule remap [THEN conjunct2, THEN conjunct2, THEN conjunct2, THEN conjunct1, rule_format])
      (rule conjI, rule b0, rule b1)
  moreover have "updateEmployee ?r ann_takes_cy store =
          (Inl (GraphQLError ''Email already exists.'' ''BAD_USER_INPUT'' NoDetails), ?x2)"
    by (rule remap [THEN conjunct2, THEN conjunct2, THEN conjunct2, THEN conjunct2, THEN conjunct1, rule_format])
      (rule conjI, rule u0, rule conjI, rule u1, rule conjI, rule u2, rule u3)
  moreover have "updateEmployee ?r ?bobs store =
          (Inl (GraphQLError ''Email already exists.'' ''BAD_USER_INPUT'' NoDetails),
           snd (Employee_findOne ?r ?bq store))"
    by (rule remap [THEN conjunct2, THEN conjunct2, THEN conjunct2, THEN conjunct2, THEN conjunct2, rule_format])
      (rule conjI, rule c0, rule conjI, rule c1, rule conjI, rule c2, rule c3)
  ultimately show ?thesis
    by simp
qed

section \<open>Updating a record that does not exist\<close>

text \<open>
  C7 as stated fails: an update of a valid identifier that matches no record is
  rejected with \<open>BAD_USER_INPUT\<close> when its email belongs to another record, and when its
  salary is below 1000, before the store is asked for the record.
\<close>

theorem update_missing_record_counterexample:
  "ObjectId_isValid sample ''000000000000000000000009'' \<and>
   fst (Employee_findById sample ''000000000000000000000009'' store) = Inr None \<and>
   fst (updateEmployee sample (ghost_update\<lparr>email := Val ''bob@example.com''\<rparr>) store) =
     Inl (GraphQLError ''Email already exists.'' ''BAD_USER_INPUT'' NoDetails) \<and>
   fst (updateEmployee sample (ghost_update\<lparr>salary := Val 5\<rparr>) store) =
     Inl (GraphQLError ''Salary must be at least 1000.'' ''BAD_USER_INPUT''
            (ErrorArray [ValidationError ''Salary must be at least 1000.'' ''salary'']))"
proof -
  have valid: "ObjectId_isValid sample ''000000000000000000000009''"
    by code_simp
  have missing: "fst (Employee_findById sample ''000000000000000000000009'' store) = Inr None"
    by code_simp
  have v1: "runValidation (updateEmployee_schema sample (ghost_update\<lparr>email := Val ''bob@example.com''\<rparr>)) = None"
    by code_simp
  have i1: "ObjectId_isValid sample (toString (eid (ghost_update\<lparr>email := Val ''bob@example.com''\<rparr>)))"
    by code_simp
  have u1: "updates sample (ghost_update\<lparr>email := Val ''bob@example.com''\<rparr>) store =
              (Inl (GraphQLError ''Email already exists.'' ''BAD_USER_INPUT'' NoDetails),
               called ''Employee.findOne'' store)"
    by code_simp
  have r1: "fst (updateEmployee sample (ghost_update\<lparr>email := Val ''bob@example.com''\<rparr>) store) =
     Inl (GraphQLError ''Email already exists.'' ''BAD_USER_INPUT'' NoDetails)"
    by (simp add: updateEmployee_validated [OF v1 i1] await_async_def u1)
  have v2: "runValidation (updateEmployee_schema sample (ghost_update\<lparr>salary := Val 5\<rparr>)) =
              Some (GraphQLError ''Salary must be at least 1000.'' ''BAD_USER_INPUT''
                (ErrorArray [ValidationError ''Salary must be at least 1000.'' ''salary'']))"
    by code_simp
  have r2: "fst (updateEmployee sample (ghost_update\<lparr>salary := Val 5\<rparr>) store) =
     Inl (GraphQLError ''Salary must be at least 1000.'' ''BAD_USER_INPUT''
            (ErrorArray [ValidationError ''Salary must be at least 1000.'' ''salary'']))"
    by (simp add: updateEmployee_def v2 throw_def)
  from valid missing r1 r2 show ?thesis
    by simp
qed

text \<open>
  C7, amended: for every \<open>updateEmployee\<close> call that passes validation and the email
  pre-check, with a structurally valid identifier for which the store's update finds no
  record, the operation fails with \<open>NOT_FOUND\<close>; \<open>handleDuplicateEmailError\<close> throws that
  error again unchanged.
\<close>

theorem update_not_found_passes_handler:
  assumes "runValidation (updateEmployee_schema env a) = None"
    and "ObjectId_isValid env (toString (eid a))"
    and "updates env a w = (Inr upd, w1)"
    and "Employee_findByIdAndUpdate env (toString (eid a)) upd w1 = (Inr None, w2)"
  shows "updateEmployee env a w =
           (Inl (GraphQLError ''Employee not found.'' ''NOT_FOUND'' NoDetails), w2) \<and>
         handleDuplicateEmailError (GraphQLError ''Employee not found.'' ''NOT_FOUND'' NoDetails) =
           GraphQLError ''Employee not found.'' ''NOT_FOUND'' NoDetails"
  using assms(3,4)
  by (simp add: updateEmployee_validated [OF assms(1,2)] await_async_def await_def try_catch_def
      throw_def)

theorem update_not_found_passes_handler_witness:
  "updateEmployee sample ghost_update store =
     (Inl (GraphQLError ''Employee not found.'' ''NOT_FOUND'' NoDetails),
      called ''Employee.findByIdAndUpdate'' store)"
proof -
  have v: "runValidation (updateEmployee_schema sample ghost_update) = None"
    by code_simp
  have i: "ObjectId_isValid sample (toString (eid ghost_update))"
    by code_simp
  have u: "updates sample ghost_update store = (Inr (ghost_update\<lparr>eid := Undefined\<rparr>), store)"
    by code_simp
  have n: "Employee_findByIdAndUpdate sample (toString (eid ghost_update))
             (ghost_update\<lparr>eid := Undefined\<rparr>) store =
             (Inr None, called ''Employee.findByIdAndUpdate'' store)"
    by code_simp
  from update_not_found_passes_handler [OF v i u n] show ?thesis
    by simp
qed

section \<open>The minimum salary\<close>

text \<open>
  C3: for every salary below 1000, \<open>addEmployee\<close> and \<open>updateEmployee\<close> fail with
  \<open>BAD_USER_INPUT\<close> without touching the world. With a salary of exactly 1000 and the
  other fields valid, \<open>addEmployee\<close> returns the document that the store creates (when
  the email is not taken and the upload, if any, succeeds), and \<open>updateEmployee\<close> returns
  the document that the store updates (when the identifier is valid and the email
  pre-check passes).
\<close>

theorem salary_minimum:
  "(salary a = Val x \<and> x < 1000 \<longrightarrow>
      (\<exists>m d. addEmployee env a w = (Inl (GraphQLError m ''BAD_USER_INPUT'' d), w)) \<and>
      (\<exists>m d. updateEmployee env a w = (Inl (GraphQLError m ''BAD_USER_INPUT'' d), w))) \<and>
   (salary a = Val 1000 \<and> addEmployee_other_rules env a \<and>
    Employee_findOne env (no_filter\<lparr>f_email := Some (toLowerCase (toString (email a)))\<rparr>) w =
      (Inr None, w1) \<and>
    photoUrl env a w1 = (Inr url, w2) \<and>
    Employee_create env
      (a\<lparr>email := Val (toLowerCase (toString (email a))), employee_photo := url\<rparr>) w2 =
      (Inr d, w3)
    \<longrightarrow> addEmployee env a w = (Inr d, w3)) \<and>
   (salary a = Val 1000 \<and> updateEmployee_other_rules env a \<and>
    ObjectId_isValid env (toString (eid a)) \<and>
    updates env a w = (Inr upd, w1) \<and>
    Employee_findByIdAndUpdate env (toString (eid a)) upd w1 = (Inr (Some d), w2)
    \<longrightarrow> updateEmployee env a w = (Inr d, w2))"
proof (intro conjI impI)
  assume low: "salary a = Val x \<and> x < 1000"
  then have "addEmployee_schema env a \<noteq> []"
    by (simp add: addEmployee_schema_def check_def)
  from runValidation_Some [OF this]
  show "\<exists>m d. addEmployee env a w = (Inl (GraphQLError m ''BAD_USER_INPUT'' d), w)"
    by (auto simp: addEmployee_def throw_def)
  from low have "updateEmployee_schema env a \<noteq> []"
    by (simp add: updateEmployee_schema_def check_def)
  from runValidation_Some [OF this]
  show "\<exists>m d. updateEmployee env a w = (Inl (GraphQLError m ''BAD_USER_INPUT'' d), w)"
    by (auto simp: updateEmployee_def throw_def)
next
  assume h: "salary a = Val 1000 \<and> addEmployee_other_rules env a \<and>
    Employee_findOne env (no_filter\<lparr>f_email := Some (toLowerCase (toString (email a)))\<rparr>) w =
      (Inr None, w1) \<and>
    photoUrl env a w1 = (Inr url, w2) \<and>
    Employee_create env
      (a\<lparr>email := Val (toLowerCase (toString (email a))), employee_photo := url\<rparr>) w2 =
      (Inr d, w3)"
  then have "addEmployee_schema env a = []"
    by (auto simp: addEmployee_schema_def addEmployee_other_rules_def check_def)
  then have "runValidation (addEmployee_schema env a) = None"
    by (simp add: runValidation_None)
  from addEmployee_validated [OF this] h show "addEmployee env a w = (Inr d, w3)"
    by (simp add: await_def await_async_def try_catch_def return_def)
next
  assume h: "salary a = Val 1000 \<and> updateEmployee_other_rules env a \<and>
    ObjectId_isValid env (toString (eid a)) \<and>
    updates env a w = (Inr upd, w1) \<and>
    Employee_findByIdAndUpdate env (toString (eid a)) upd w1 = (Inr (Some d), w2)"
  then have "updateEmployee_schema env a = []"
    by (auto simp: updateEmployee_schema_def updateEmployee_other_rules_def check_def)
  then have "runValidation (updateEmployee_schema env a) = None"
    by (simp add: runValidation_None)
  from updateEmployee_validated [OF this] h show "updateEmployee env a w = (Inr d, w2)"
    by (simp add: await_def await_async_def try_catch_def return_def)
qed

theorem salary_minimum_witness:
  "(\<exists>m d. addEmployee sample (new_hire\<lparr>salary := Val 999.99\<rparr>) store =
            (Inl (GraphQLError m ''BAD_USER_INPUT'' d), store)) \<and>
   (\<exists>m d. updateEmployee sample (raise\<lparr>salary := Val 999.99\<rparr>) store =
            (Inl (GraphQLError m ''BAD_USER_INPUT'' d), store)) \<and>
   fst (addEmployee sample new_hire store) =
     Inr (new_employee 3 (new_hire\<lparr>email := Val ''cy@example.com'', employee_photo := Null\<rparr>)) \<and>
   e_salary (new_employee 3 (new_hire\<lparr>email := Val ''cy@example.com'', employee_photo := Null\<rparr>)) =
     1000 \<and>
   fst (updateEmployee sample raise store) = Inr (ann\<lparr>e_salary := 1000, updated_at := 3\<rparr>)"
proof -
  let ?doc = "new_hire\<lparr>email := Val (toLowerCase (toString (email new_hire))),
                        employee_photo := Null\<rparr>"
  let ?w1 = "called ''Employee.findOne'' store"
  let ?w3 = "snd (Employee_create sample ?doc ?w1)"
  let ?w2 = "snd (Employee_findByIdAndUpdate sample (toString (eid raise))
                   (raise\<lparr>eid := Undefined\<rparr>) store)"
  have low: "salary (new_hire\<lparr>salary := Val 999.99\<rparr>) = Val 999.99 \<and> (999.99::real) < 1000"
    "salary (raise\<lparr>salary := Val 999.99\<rparr>) = Val 999.99 \<and> (999.99::real) < 1000"
    by simp_all
  have a0: "salary new_hire = Val 1000"
    by code_simp
  have a1: "addEmployee_other_rules sample new_hire"
    by code_simp
  have a2: "Employee_findOne sample
              (no_filter\<lparr>f_email := Some (toLowerCase (toString (email new_hire)))\<rparr>) store =
              (Inr None, ?w1)"
    by code_simp
  have a3: "photoUrl sample new_hire ?w1 = (Inr Null, ?w1)"
    by code_simp
  have a4: "Employee_create sample ?doc ?w1 =
              (Inr (new_employee 3
                      (new_hire\<lparr>email := Val ''cy@example.com'', employee_photo := Null\<rparr>)), ?w3)"
    by code_simp
  have sal: "e_salary (new_employee 3
               (new_hire\<lparr>email := Val ''cy@example.com'', employee_photo := Null\<rparr>)) = 1000"
    by code_simp
  have u0: "salary raise = Val 1000"
    by code_simp
  have u1: "updateEmployee_other_rules sample raise"
    by code_simp
  have u2: "ObjectId_isValid sample (toString (eid raise))"
    by code_simp
  have u3: "updates sample raise store = (Inr (raise\<lparr>eid := Undefined\<rparr>), store)"
    by code_simp
  have u4: "Employee_findByIdAndUpdate sample (toString (eid raise)) (raise\<lparr>eid := Undefined\<rparr>)
              store = (Inr (Some (ann\<lparr>e_salary := 1000, updated_at := 3\<rparr>)), ?w2)"
    by code_simp
  have "\<exists>m d. addEmployee sample (new_hire\<lparr>salary := Val 999.99\<rparr>) store =
            (Inl (GraphQLError m ''BAD_USER_INPUT'' d), store)"
    using salary_minimum [THEN conjunct1, rule_format, OF low(1)] by (rule conjunct1)
  moreover have "\<exists>m d. updateEmployee sample (raise\<lparr>salary := Val 999.99\<rparr>) store =
            (Inl (GraphQLError m ''BAD_USER_INPUT'' d), store)"
    using salary_minimum [THEN conjunct1, rule_format, OF low(2)] by (rule conjunct2)
  moreover have "addEmployee sample new_hire store =
      (Inr (new_employee 3 (new_hire\<lparr>email := Val ''cy@example.com'', employee_photo := Null\<rparr>)),
       ?w3)"
    by (rule salary_minimum [THEN conjunct2, THEN conjunct1, rule_format])
      (rule conjI, rule a0, rule conjI, rule a1, rule conjI, rule a2, rule conjI, rule a3, rule a4)
  moreover have "updateEmployee sample raise store =
      (Inr (ann\<lparr>e_salary := 1000, updated_at := 3\<rparr>), ?w2)"
    by (rule salary_minimum [THEN conjunct2, THEN conjunct2, rule_format])
      (rule conjI, rule u0, rule conjI, rule u1, rule conjI, rule u2, rule conjI, rule u3, rule u4)
  ultimately show ?thesis
    using sal by simp
qed

section \<open>The in-memory store\<close>


section \<open>Search\<close>










section \<open>Signup\<close>






section \<open>The email of an update\<close>







text \<open>The writes of the store keep the emails in lower case.\<close>

lemma space_code: "is_space c \<longleftrightarrow> (of_char c :: nat) \<in> {32, 9, 10, 11, 12, 13}"
proof -
  have eq: "c = char_of n \<longleftrightarrow> (of_char c :: nat) = n" if "n < 256" for n :: nat
    using that by (metis char_of_eq_iff take_bit_nat_eq_self_iff numeral_2_eq_2 of_char_of
        mod_less)
  have chars: "CHR '' '' = char_of (32::nat)" "CHR 0x09 = char_of (9::nat)"
    "CHR 0x0A = char_of (10::nat)" "CHR 0x0B = char_of (11::nat)"
    "CHR 0x0C = char_of (12::nat)" "CHR 0x0D = char_of (13::nat)"
    by code_simp+
  show ?thesis
    unfolding is_space_def chars
    by (simp add: eq)
qed

lemma is_space_lower_char: "is_space (lower_char c) = is_space c"
  by (auto simp: space_code lower_char_def)

lemma toLowerCase_dropWhile:
  "toLowerCase (dropWhile is_space s) = dropWhile is_space (toLowerCase s)"
  by (induction s) (simp_all add: toLowerCase_def is_space_lower_char)

lemma toLowerCase_trim: "toLowerCase (trim s) = trim (toLowerCase s)"
  by (simp add: trim_def toLowerCase_dropWhile [unfolded toLowerCase_def] toLowerCase_def rev_map
      flip: rev_map)

lemma lower_char_idem: "lower_char (lower_char c) = lower_char c"
  by (auto simp: lower_char_def)

lemma toLowerCase_idem: "toLowerCase (toLowerCase s) = toLowerCase s"
  by (simp add: toLowerCase_def lower_char_idem)

lemma stored_email_lower: "toLowerCase (trim (toLowerCase s)) = trim (toLowerCase s)"
  by (simp add: toLowerCase_trim toLowerCase_idem)

lemma create_keeps_lower_cased:
  "lower_cased_emails w \<Longrightarrow> lower_cased_emails (snd (mem_Employee_create doc w))"
  by (auto simp: lower_cased_emails_def mem_Employee_create_def called_def new_employee_def
      stored_email_lower)

lemma create_keeps_unique:
  "unique_emails w \<Longrightarrow> unique_emails (snd (mem_Employee_create doc w))"
  by (auto simp: unique_emails_def mem_Employee_create_def called_def)

lemma find_Some_set: "find P xs = Some x \<Longrightarrow> x \<in> set xs"
  by (induction xs) (auto split: if_splits)

lemma update_keeps_lower_cased:
  "lower_cased_emails w \<Longrightarrow> lower_cased_emails (snd (mem_Employee_findByIdAndUpdate i upd w))"
  by (auto simp: lower_cased_emails_def mem_Employee_findByIdAndUpdate_def called_def
      apply_update_def stored_email_lower dest: find_Some_set
      split: option.splits arg.splits)

lemma delete_keeps_lower_cased:
  "lower_cased_emails w \<Longrightarrow> lower_cased_emails (snd (mem_Employee_findByIdAndDelete i w))"
  by (auto simp: lower_cased_emails_def mem_Employee_findByIdAndDelete_def called_def
      split: option.splits)

end
